theory Spec2Isabelle
  imports Main "HOL-Library.Sublist"
begin

section \<open>Python values\<close>

text \<open>
  The import file and the configuration file are parsed by \<^verbatim>\<open>json.load\<close> or
  \<^verbatim>\<open>yaml.safe_load\<close>, so every value the program handles is \<^verbatim>\<open>None\<close>, a boolean, a
  number, a string, a list or a dictionary. A dictionary is an association list read
  with \<open>map_of\<close>. Numbers are integers here; a float is falsy exactly when it is zero, as
  an integer is. Strings are lists of 8-bit characters.
\<close>

datatype pyval =
    PNone
  | PBool bool
  | PInt int
  | PStr string
  | PList "pyval list"
  | PDict "(string \<times> pyval) list"

text \<open>Python's truth value of an object: what \<^verbatim>\<open>if x\<close>, \<^verbatim>\<open>not x\<close> and \<^verbatim>\<open>x or y\<close> test.\<close>

fun truthy :: "pyval \<Rightarrow> bool" where
  "truthy PNone = False"
| "truthy (PBool b) = b"
| "truthy (PInt i) = (i \<noteq> 0)"
| "truthy (PStr s) = (s \<noteq> [])"
| "truthy (PList xs) = (xs \<noteq> [])"
| "truthy (PDict kvs) = (kvs \<noteq> [])"

text \<open>\<^verbatim>\<open>type(x).__name__\<close>, as it appears in the message of an \<^verbatim>\<open>AttributeError\<close>.\<close>

fun type_name :: "pyval \<Rightarrow> string" where
  "type_name PNone = ''NoneType''"
| "type_name (PBool b) = ''bool''"
| "type_name (PInt i) = ''int''"
| "type_name (PStr s) = ''str''"
| "type_name (PList xs) = ''list''"
| "type_name (PDict kvs) = ''dict''"

text \<open>
  Exceptions. Only two things about an exception matter to the program: whether
  \<^verbatim>\<open>hasattr\<close> swallows it (an \<^verbatim>\<open>AttributeError\<close>) and its text \<^verbatim>\<open>str(e)\<close>.
  \<^verbatim>\<open>click.ClickException\<close> is what the program raises itself.
\<close>

datatype exn =
    AttributeError string
  | OtherException string
  | ClickException string

fun str_exn :: "exn \<Rightarrow> string" where
  "str_exn (AttributeError m) = m"
| "str_exn (OtherException m) = m"
| "str_exn (ClickException m) = m"

text \<open>
  \<^verbatim>\<open>obj.get(key, default)\<close>: a dictionary answers; any other parsed value has no
  attribute \<^verbatim>\<open>get\<close>.
\<close>

definition py_get :: "pyval \<Rightarrow> string \<Rightarrow> pyval \<Rightarrow> exn + pyval" where
  "py_get obj key dflt =
     (case obj of
        PDict kvs \<Rightarrow> Inr (case map_of kvs key of None \<Rightarrow> dflt | Some v \<Rightarrow> v)
      | _ \<Rightarrow> Inl (AttributeError
                 ([CHR 0x27] @ type_name obj @ [CHR 0x27] @ '' object has no attribute ''
                  @ [CHR 0x27] @ ''get'' @ [CHR 0x27])))"

section \<open>Strings\<close>

text \<open>
  \<^verbatim>\<open>str.lower()\<close> on the ASCII letters; every other 8-bit character is kept. The
  substrings the program looks for are ASCII, so only this part of \<^verbatim>\<open>lower\<close> decides a
  match.
\<close>

definition lower_char :: "char \<Rightarrow> char" where
  "lower_char c =
     (if 65 \<le> (of_char c :: nat) \<and> (of_char c :: nat) \<le> 90
      then char_of ((of_char c :: nat) + 32) else c)"

definition str_lower :: "string \<Rightarrow> string" where
  "str_lower s = map lower_char s"

text \<open>\<^verbatim>\<open>needle in hay\<close> on strings: \<open>needle\<close> occurs in \<open>hay\<close> as a contiguous block.\<close>

fun py_in :: "string \<Rightarrow> string \<Rightarrow> bool" where
  "py_in needle [] = (needle = [])"
| "py_in needle (c # cs) = (prefix needle (c # cs) \<or> py_in needle cs)"

section \<open>The platform client\<close>

text \<open>
  The \<^verbatim>\<open>reddit\<close> object is an external, stateful collaborator. It is a record of its
  three operations over a client state \<open>'c\<close>; each returns a value or raises, and leaves a
  new state:
  \<^item> \<open>subreddit\<close> is \<^verbatim>\<open>reddit.subreddit(name)\<close>, giving a handle \<open>'h\<close>;
  \<^item> \<open>user_is_subscriber\<close> is one read of the attribute of that name on the handle;
  \<^item> \<open>subscribe\<close> is \<^verbatim>\<open>subreddit.subscribe()\<close>.
  The world the import runs in is the client state with the log of the calls made.
\<close>

record ('c, 'h) reddit =
  subreddit :: "'c \<Rightarrow> pyval \<Rightarrow> (exn + 'h) \<times> 'c"
  user_is_subscriber :: "'c \<Rightarrow> 'h \<Rightarrow> (exn + pyval) \<times> 'c"
  subscribe :: "'c \<Rightarrow> 'h \<Rightarrow> (exn + unit) \<times> 'c"

datatype 'h call = Resolve pyval | ReadAttr 'h | Subscribe 'h

type_synonym ('c, 'h) world = "'c \<times> 'h call list"

definition call_subreddit ::
  "('c, 'h) reddit \<Rightarrow> pyval \<Rightarrow> ('c, 'h) world \<Rightarrow> (exn + 'h) \<times> ('c, 'h) world" where
  "call_subreddit r name w =
     (case subreddit r (fst w) name of (res, c') \<Rightarrow> (res, (c', snd w @ [Resolve name])))"

definition read_user_is_subscriber ::
  "('c, 'h) reddit \<Rightarrow> 'h \<Rightarrow> ('c, 'h) world \<Rightarrow> (exn + pyval) \<times> ('c, 'h) world" where
  "read_user_is_subscriber r h w =
     (case user_is_subscriber r (fst w) h of (res, c') \<Rightarrow> (res, (c', snd w @ [ReadAttr h])))"

definition call_subscribe ::
  "('c, 'h) reddit \<Rightarrow> 'h \<Rightarrow> ('c, 'h) world \<Rightarrow> (exn + unit) \<times> ('c, 'h) world" where
  "call_subscribe r h w =
     (case subscribe r (fst w) h of (res, c') \<Rightarrow> (res, (c', snd w @ [Subscribe h])))"

text \<open>
  \<^verbatim>\<open>hasattr(subreddit, 'user_is_subscriber')\<close> reads the attribute once: an
  \<^verbatim>\<open>AttributeError\<close> makes it \<^verbatim>\<open>False\<close>, any other exception passes through.
\<close>

definition hasattr_user_is_subscriber ::
  "('c, 'h) reddit \<Rightarrow> 'h \<Rightarrow> ('c, 'h) world \<Rightarrow> (exn + bool) \<times> ('c, 'h) world" where
  "hasattr_user_is_subscriber r h w =
     (case read_user_is_subscriber r h w of
        (Inr v, w') \<Rightarrow> (Inr True, w')
      | (Inl (AttributeError m), w') \<Rightarrow> (Inr False, w')
      | (Inl e, w') \<Rightarrow> (Inl e, w'))"

text \<open>
  The condition of line 148,
  \<^verbatim>\<open>hasattr(subreddit, 'user_is_subscriber') and subreddit.user_is_subscriber\<close>:
  the second read happens only when \<^verbatim>\<open>hasattr\<close> was true.
\<close>

definition is_subscribed ::
  "('c, 'h) reddit \<Rightarrow> 'h \<Rightarrow> ('c, 'h) world \<Rightarrow> (exn + bool) \<times> ('c, 'h) world" where
  "is_subscribed r h w =
     (case hasattr_user_is_subscriber r h w of
        (Inl e, w') \<Rightarrow> (Inl e, w')
      | (Inr False, w') \<Rightarrow> (Inr False, w')
      | (Inr True, w') \<Rightarrow>
          (case read_user_is_subscriber r h w' of
             (Inl e, w'') \<Rightarrow> (Inl e, w'')
           | (Inr v, w'') \<Rightarrow> (Inr (truthy v), w'')))"

section \<open>import_communities\<close>

text \<open>
  What one pass of the loop appends, and to which of the three lists:
  \<open>Joined\<close> to \<^verbatim>\<open>successful_joins\<close>, \<open>AlreadyJoined\<close> to \<^verbatim>\<open>already_joined\<close>,
  \<open>Failed name error\<close> (the dictionary \<^verbatim>\<open>{'name': ..., 'error': ...}\<close>) to
  \<^verbatim>\<open>failed_joins\<close>.
\<close>

datatype outcome = Joined pyval | AlreadyJoined pyval | Failed pyval string

text \<open>The \<^verbatim>\<open>except Exception as e\<close> handler of lines 157 to 166.\<close>

definition classify :: "pyval \<Rightarrow> exn \<Rightarrow> outcome" where
  "classify community_name e =
     (let error_msg = str_lower (str_exn e) in
      if py_in ''private'' error_msg \<or> py_in ''forbidden'' error_msg
        then Failed community_name ''Private/Restricted community''
      else if py_in ''not found'' error_msg \<or> py_in ''404'' error_msg
        then Failed community_name ''Community not found''
      else if py_in ''banned'' error_msg
        then Failed community_name ''Banned from community''
      else Failed community_name (''Unknown error: '' @ str_exn e))"

text \<open>The body of the \<^verbatim>\<open>try\<close> of lines 144 to 155.\<close>

definition try_join ::
  "('c, 'h) reddit \<Rightarrow> bool \<Rightarrow> pyval \<Rightarrow> ('c, 'h) world \<Rightarrow> (exn + outcome) \<times> ('c, 'h) world" where
  "try_join r dry_run community_name w =
     (case call_subreddit r community_name w of
        (Inl e, w1) \<Rightarrow> (Inl e, w1)
      | (Inr sr, w1) \<Rightarrow>
          (case is_subscribed r sr w1 of
             (Inl e, w2) \<Rightarrow> (Inl e, w2)
           | (Inr True, w2) \<Rightarrow> (Inr (AlreadyJoined community_name), w2)
           | (Inr False, w2) \<Rightarrow>
               (if \<not> dry_run
                then (case call_subscribe r sr w2 of
                        (Inl e, w3) \<Rightarrow> (Inl e, w3)
                      | (Inr u, w3) \<Rightarrow> (Inr (Joined community_name), w3))
                else (Inr (Joined community_name), w2))))"

text \<open>
  One pass of the loop, lines 139 to 166. \<^verbatim>\<open>community.get('name')\<close> stands outside the
  inner \<^verbatim>\<open>try\<close>: when it raises, the exception leaves the loop.
\<close>

definition import_record ::
  "('c, 'h) reddit \<Rightarrow> bool \<Rightarrow> pyval \<Rightarrow> ('c, 'h) world \<Rightarrow> (exn + outcome) \<times> ('c, 'h) world" where
  "import_record r dry_run community w =
     (case py_get community ''name'' PNone of
        Inl e \<Rightarrow> (Inl e, w)
      | Inr community_name \<Rightarrow>
          (if \<not> truthy community_name
           then (Inr (Failed (PStr ''Unknown'') ''Missing community name''), w)
           else (case try_join r dry_run community_name w of
                   (Inl e, w') \<Rightarrow> (Inr (classify community_name e), w')
                 | (Inr out, w') \<Rightarrow> (Inr out, w'))))"

text \<open>The three result lists of lines 133 to 135.\<close>

record joins =
  successful_joins :: "pyval list"
  failed_joins :: "(pyval \<times> string) list"
  already_joined :: "pyval list"

definition no_joins :: joins where
  "no_joins = \<lparr>successful_joins = [], failed_joins = [], already_joined = []\<rparr>"

text \<open>The number of entries in the three lists together.\<close>

definition entries :: "joins \<Rightarrow> nat" where
  "entries js = length (successful_joins js) + length (failed_joins js) + length (already_joined js)"

fun append_outcome :: "outcome \<Rightarrow> joins \<Rightarrow> joins" where
  "append_outcome (Joined n) js = js\<lparr>successful_joins := successful_joins js @ [n]\<rparr>"
| "append_outcome (AlreadyJoined n) js = js\<lparr>already_joined := already_joined js @ [n]\<rparr>"
| "append_outcome (Failed n err) js = js\<lparr>failed_joins := failed_joins js @ [(n, err)]\<rparr>"

text \<open>The \<^verbatim>\<open>for\<close> loop of line 138: it stops at the first exception that leaves a pass.\<close>

fun import_loop ::
  "('c, 'h) reddit \<Rightarrow> bool \<Rightarrow> pyval list \<Rightarrow> joins \<Rightarrow> ('c, 'h) world
     \<Rightarrow> (exn + joins) \<times> ('c, 'h) world" where
  "import_loop r dry_run [] js w = (Inr js, w)"
| "import_loop r dry_run (community # rest) js w =
     (case import_record r dry_run community w of
        (Inl e, w') \<Rightarrow> (Inl e, w')
      | (Inr out, w') \<Rightarrow> import_loop r dry_run rest (append_outcome out js) w')"

text \<open>
  The summary printed by lines 168 to 188: the heading of the first count, that count,
  the two lists that are printed with their lengths, and the total.
\<close>

record summary =
  join_label :: string
  join_count :: nat
  already_list :: "pyval list"
  failed_list :: "(pyval \<times> string) list"
  total_processed :: nat

text \<open>
  \<^verbatim>\<open>import_communities\<close> from line 129 on, given the list \<open>communities\<close> that
  \<^verbatim>\<open>load_communities_file\<close> returned. An exception that leaves the loop is raised again
  as a \<^verbatim>\<open>ClickException\<close> by the outer handler of line 190.
\<close>

definition import_communities ::
  "('c, 'h) reddit \<Rightarrow> pyval list \<Rightarrow> bool \<Rightarrow> ('c, 'h) world
     \<Rightarrow> (exn + summary) \<times> ('c, 'h) world" where
  "import_communities r communities dry_run w =
     (case import_loop r dry_run communities no_joins w of
        (Inl e, w') \<Rightarrow> (Inl (ClickException (''Import failed: '' @ str_exn e)), w')
      | (Inr js, w') \<Rightarrow>
          (Inr \<lparr>join_label = (if dry_run then ''Would join'' else ''Successfully joined''),
                join_count = length (successful_joins js),
                already_list = already_joined js,
                failed_list = failed_joins js,
                total_processed = length communities\<rparr>, w'))"

text \<open>
  The outcomes the loop appends, in the order of the input: one for every entry it gets
  through. \<open>import_loop\<close> folds \<open>append_outcome\<close> over this list
  (lemma \<open>import_loop_outcomes\<close>).
\<close>

fun outcomes ::
  "('c, 'h) reddit \<Rightarrow> bool \<Rightarrow> pyval list \<Rightarrow> ('c, 'h) world \<Rightarrow> outcome list" where
  "outcomes r dry_run [] w = []"
| "outcomes r dry_run (community # rest) w =
     (case import_record r dry_run community w of
        (Inl e, w') \<Rightarrow> []
      | (Inr out, w') \<Rightarrow> out # outcomes r dry_run rest w')"

text \<open>Reading the call log.\<close>

fun is_subscribe :: "'h call \<Rightarrow> bool" where
  "is_subscribe (Subscribe h) = True"
| "is_subscribe other = False"

definition subscribe_calls :: "'h call list \<Rightarrow> nat" where
  "subscribe_calls log = length (filter is_subscribe log)"

fun resolved_names :: "'h call list \<Rightarrow> pyval list" where
  "resolved_names [] = []"
| "resolved_names (Resolve n # log) = n # resolved_names log"
| "resolved_names (other # log) = resolved_names log"

text \<open>An entry of the list that is a dictionary: one that has \<^verbatim>\<open>get\<close>.\<close>

fun is_record :: "pyval \<Rightarrow> bool" where
  "is_record (PDict kvs) = True"
| "is_record other = False"

text \<open>
  The names the loop hands to the client: those of the entries that are dictionaries
  with a truthy \<^verbatim>\<open>name\<close>.
\<close>

definition community_name :: "pyval \<Rightarrow> pyval option" where
  "community_name community =
     (case py_get community ''name'' PNone of
        Inl e \<Rightarrow> None
      | Inr n \<Rightarrow> if truthy n then Some n else None)"

definition community_names :: "pyval list \<Rightarrow> pyval list" where
  "community_names communities = List.map_filter community_name communities"

section \<open>The classification as the specification words it\<close>

text \<open>
  Case-insensitive substring match, in the priority order of the specification:
  \<open>sublist\<close> is the library's contiguous sublist.
\<close>

definition spec_reason :: "string \<Rightarrow> string" where
  "spec_reason msg =
     (if sublist ''private'' (str_lower msg) \<or> sublist ''forbidden'' (str_lower msg)
        then ''Private/Restricted community''
      else if sublist ''not found'' (str_lower msg) \<or> sublist ''404'' (str_lower msg)
        then ''Community not found''
      else if sublist ''banned'' (str_lower msg)
        then ''Banned from community''
      else ''Unknown error: '' @ msg)"

section \<open>A remote platform\<close>

text \<open>
  The platform itself is not part of the repository. Where a property speaks of the
  remote state, the platform is this client: its state is the set of communities the
  account is subscribed to; resolving, querying and subscribing raise a fixed exception
  for a community (\<open>Some e\<close>) or succeed (\<open>None\<close>); the handle of a community is its
  name; the attribute \<^verbatim>\<open>user_is_subscriber\<close> of a handle tells whether the community is
  in the set; a successful \<open>subscribe\<close> adds the community to the set.
\<close>

definition remote_client ::
  "(pyval \<Rightarrow> exn option) \<Rightarrow> (pyval \<Rightarrow> exn option) \<Rightarrow> (pyval \<Rightarrow> exn option)
     \<Rightarrow> (pyval set, pyval) reddit" where
  "remote_client resolve_err query_err subscribe_err =
     \<lparr>subreddit = (\<lambda>subs name.
        (case resolve_err name of Some e \<Rightarrow> Inl e | None \<Rightarrow> Inr name, subs)),
      user_is_subscriber = (\<lambda>subs name.
        (case query_err name of
           Some e \<Rightarrow> Inl e
         | None \<Rightarrow> Inr (PBool (name \<in> subs)), subs)),
      subscribe = (\<lambda>subs name.
        (case subscribe_err name of
           Some e \<Rightarrow> (Inl e, subs)
         | None \<Rightarrow> (Inr (), insert name subs)))\<rparr>"

text \<open>
  An operation that raises an exception with the text \<open>msg\<close> for the community \<open>name\<close>
  and succeeds for every other one; a handle of \<open>name\<close> without the attribute, whose
  read raises an \<^verbatim>\<open>AttributeError\<close>; an operation that never raises.
\<close>

definition err_on :: "pyval \<Rightarrow> string \<Rightarrow> pyval \<Rightarrow> exn option" where
  "err_on name msg n = (if n = name then Some (OtherException msg) else None)"

definition no_attribute_on :: "pyval \<Rightarrow> string \<Rightarrow> pyval \<Rightarrow> exn option" where
  "no_attribute_on name msg n = (if n = name then Some (AttributeError msg) else None)"

definition no_err :: "pyval \<Rightarrow> exn option" where
  "no_err n = None"

section \<open>One attempt for each record\<close>

text \<open>
  The calls that one attempt at a record may consist of, when no operation is repeated.
  For a record without a name there is none. For the name \<open>n\<close>: the resolution of \<open>n\<close>,
  once; then, on the handle it gave, the read of the attribute by \<^verbatim>\<open>hasattr\<close> and,
  after it, the read of its value, at most once each; then \<^verbatim>\<open>subscribe\<close>, at most once.
\<close>

fun attempt_tail :: "'h \<Rightarrow> 'h call list \<Rightarrow> bool" where
  "attempt_tail h [] = True"
| "attempt_tail h [ReadAttr k] = (k = h)"
| "attempt_tail h [Subscribe k] = (k = h)"
| "attempt_tail h [ReadAttr k, Subscribe k'] = (k = h \<and> k' = h)"
| "attempt_tail h other = False"

fun one_attempt :: "pyval option \<Rightarrow> 'h call list \<Rightarrow> bool" where
  "one_attempt None calls = (calls = [])"
| "one_attempt (Some n) [Resolve m] = (m = n)"
| "one_attempt (Some n) (Resolve m # ReadAttr h # calls) = (m = n \<and> attempt_tail h calls)"
| "one_attempt (Some n) other = False"

section \<open>get_reddit_credentials\<close>

text \<open>
  What \<^verbatim>\<open>load_config\<close> finds at a path: no file, a file the parser rejects with a
  message, or a parsed value.
\<close>

datatype file_content = NoFile | Unparsable string | Parsed pyval

definition load_config :: "(string \<Rightarrow> file_content) \<Rightarrow> string \<Rightarrow> exn + pyval" where
  "load_config fs config_file =
     (case fs config_file of
        NoFile \<Rightarrow> Inl (ClickException (''Config file not found: '' @ config_file))
      | Unparsable m \<Rightarrow> Inl (ClickException (''Failed to parse config file: '' @ m))
      | Parsed config \<Rightarrow> Inr (if truthy config then config else PDict []))"

text \<open>
  \<^verbatim>\<open>arg or config.get(key, default)\<close>: the right operand is evaluated only when the
  left one is falsy.
\<close>

definition or_config_get :: "pyval \<Rightarrow> pyval \<Rightarrow> string \<Rightarrow> pyval \<Rightarrow> exn + pyval" where
  "or_config_get arg config key dflt = (if truthy arg then Inr arg else py_get config key dflt)"

text \<open>\<^verbatim>\<open>', '.join(xs)\<close>.\<close>

fun join_comma :: "string list \<Rightarrow> string" where
  "join_comma [] = []"
| "join_comma [x] = x"
| "join_comma (x # y # ys) = x @ '', '' @ join_comma (y # ys)"

text \<open>Lines 209 to 217.\<close>

definition missing_params :: "pyval \<Rightarrow> pyval \<Rightarrow> pyval \<Rightarrow> pyval \<Rightarrow> string list" where
  "missing_params client_id client_secret username password =
     (if \<not> truthy client_id then [''client-id''] else [])
     @ (if \<not> truthy client_secret then [''client-secret''] else [])
     @ (if \<not> truthy username then [''username''] else [])
     @ (if \<not> truthy password then [''password''] else [])"

definition missing_message :: "string list \<Rightarrow> string" where
  "missing_message params =
     ''Missing required parameters: '' @ join_comma params
     @ ''. Provide them via command line or config file.''"

record credentials =
  cred_client_id :: pyval
  cred_client_secret :: pyval
  cred_username :: pyval
  cred_password :: pyval
  cred_user_agent :: pyval

definition and_then :: "exn + 'a \<Rightarrow> ('a \<Rightarrow> exn + 'b) \<Rightarrow> exn + 'b" where
  "and_then m f = (case m of Inl e \<Rightarrow> Inl e | Inr x \<Rightarrow> f x)"

text \<open>
  The command line gives \<^verbatim>\<open>None\<close> or a string for every option; \<open>fs\<close> is the file
  system as \<^verbatim>\<open>load_config\<close> sees it.
\<close>

definition get_reddit_credentials ::
  "(string \<Rightarrow> file_content) \<Rightarrow> string option \<Rightarrow> pyval \<Rightarrow> pyval \<Rightarrow> pyval \<Rightarrow> pyval \<Rightarrow> pyval
     \<Rightarrow> exn + credentials" where
  "get_reddit_credentials fs config_file client_id client_secret username password user_agent =
     and_then
       (case config_file of
          None \<Rightarrow> Inr (PDict [])
        | Some path \<Rightarrow> if path \<noteq> [] then load_config fs path else Inr (PDict []))
       (\<lambda>config.
     and_then (or_config_get client_id config ''client_id'' PNone) (\<lambda>client_id.
     and_then (or_config_get client_secret config ''client_secret'' PNone) (\<lambda>client_secret.
     and_then (or_config_get username config ''username'' PNone) (\<lambda>username.
     and_then (or_config_get password config ''password'' PNone) (\<lambda>password.
     and_then (or_config_get user_agent config ''user_agent'' (PStr ''reddit-cm:v0.1.0''))
       (\<lambda>user_agent.
     if missing_params client_id client_secret username password \<noteq> []
     then Inl (ClickException
                 (missing_message (missing_params client_id client_secret username password)))
     else Inr \<lparr>cred_client_id = client_id, cred_client_secret = client_secret,
               cred_username = username, cred_password = password,
               cred_user_agent = user_agent\<rparr>))))))"

text \<open>The value the configuration gives for a key, \<^verbatim>\<open>None\<close> when it has none.\<close>

definition config_value :: "(string \<times> pyval) list \<Rightarrow> string \<Rightarrow> pyval" where
  "config_value kvs key = (case map_of kvs key of None \<Rightarrow> PNone | Some v \<Rightarrow> v)"

text \<open>
  The configuration in force is the dictionary \<open>kvs\<close>: no file was named and \<open>kvs\<close> is
  empty, or the named file was parsed to \<open>kvs\<close> (a file that parses to a falsy value
  counts as the empty dictionary, line 34).
\<close>

definition config_in_force ::
  "(string \<Rightarrow> file_content) \<Rightarrow> string option \<Rightarrow> (string \<times> pyval) list \<Rightarrow> bool" where
  "config_in_force fs config_file kvs =
     (case config_file of
        None \<Rightarrow> kvs = []
      | Some path \<Rightarrow>
          if path = [] then kvs = []
          else (case fs path of
                  Parsed v \<Rightarrow> if truthy v then v = PDict kvs else kvs = []
                | _ \<Rightarrow> False))"

section \<open>Credential resolution as the specification words it\<close>

text \<open>
  Precedence: the explicit field when it is given, else the field of the configuration
  file, else, for the user agent only, the built-in default. Then every one of the four
  required fields that is still missing is named in the error.
\<close>

definition spec_pick :: "pyval \<Rightarrow> pyval option \<Rightarrow> pyval \<Rightarrow> pyval" where
  "spec_pick explicit from_config builtin =
     (if truthy explicit then explicit
      else case from_config of Some v \<Rightarrow> v | None \<Rightarrow> builtin)"

definition spec_missing :: "(string \<times> pyval) list \<Rightarrow> string list" where
  "spec_missing labelled = map fst (filter (\<lambda>lv. \<not> truthy (snd lv)) labelled)"

definition spec_credentials ::
  "(string \<times> pyval) list \<Rightarrow> pyval \<Rightarrow> pyval \<Rightarrow> pyval \<Rightarrow> pyval \<Rightarrow> pyval \<Rightarrow> exn + credentials" where
  "spec_credentials kvs client_id client_secret username password user_agent =
     (let cid = spec_pick client_id (map_of kvs ''client_id'') PNone;
          csec = spec_pick client_secret (map_of kvs ''client_secret'') PNone;
          usr = spec_pick username (map_of kvs ''username'') PNone;
          pwd = spec_pick password (map_of kvs ''password'') PNone;
          ua = spec_pick user_agent (map_of kvs ''user_agent'') (PStr ''reddit-cm:v0.1.0'');
          missing = spec_missing [(''client-id'', cid), (''client-secret'', csec),
                                  (''username'', usr), (''password'', pwd)]
      in if missing = []
         then Inr \<lparr>cred_client_id = cid, cred_client_secret = csec, cred_username = usr,
                   cred_password = pwd, cred_user_agent = ua\<rparr>
         else Inl (ClickException
                     (''Missing required parameters: '' @ join_comma missing
                      @ ''. Provide them via command line or config file.'')))"

text \<open>The labels of the four required fields, as the error message names them.\<close>

definition required_labels :: "string list" where
  "required_labels = [''client-id'', ''client-secret'', ''username'', ''password'']"

text \<open>What falling back to the configuration means for a required field whose value in
  the configuration is \<open>from_config\<close>. A truthy value is the field of the credentials
  returned; when other fields are missing, the result is the error that lists required
  fields, and the field is not one of them. Otherwise the result is the error, and its
  message names the field.\<close>

definition field_falls_back ::
  "exn + credentials \<Rightarrow> (credentials \<Rightarrow> pyval) \<Rightarrow> string \<Rightarrow> pyval \<Rightarrow> bool" where
  "field_falls_back result field label from_config =
     (if truthy from_config
      then (case result of
              Inr creds \<Rightarrow> field creds = from_config
            | Inl e \<Rightarrow> \<exists>params. set params \<subseteq> set required_labels
                                 \<and> e = ClickException (missing_message params)
                                 \<and> label \<notin> set params)
      else (case result of
              Inr creds \<Rightarrow> False
            | Inl e \<Rightarrow> \<exists>params. set params \<subseteq> set required_labels
                                 \<and> e = ClickException (missing_message params)
                                 \<and> label \<in> set params))"

section \<open>Error classification\<close>

lemma py_in_sublist: "py_in needle hay = sublist needle hay"
  by (induction hay) (auto simp: sublist_Cons_right)

lemma classify_spec_reason: "classify n e = Failed n (spec_reason (str_exn e))"
  by (simp add: classify_def spec_reason_def py_in_sublist Let_def)

lemma import_record_raise:
  "py_get community ''name'' PNone = Inr n \<Longrightarrow> truthy n \<Longrightarrow> try_join r d n w = (Inl e, w') \<Longrightarrow>
   import_record r d community w = (Inr (Failed n (spec_reason (str_exn e))), w')"
  by (simp add: import_record_def classify_spec_reason)

text \<open>The four examples of the specification.\<close>

lemma spec_reason_examples:
  "spec_reason ''Forbidden: private sub'' = ''Private/Restricted community''"
  "spec_reason ''HTTP 404 Not Found'' = ''Community not found''"
  "spec_reason ''User is banned'' = ''Banned from community''"
  "spec_reason ''timeout'' = ''Unknown error: timeout''"
  by code_simp+

text \<open>
  An \<^verbatim>\<open>AttributeError\<close> from the first read of the attribute is not an error of the
  query: \<^verbatim>\<open>hasattr\<close> answers \<^verbatim>\<open>False\<close> and the account counts as not subscribed.
\<close>

lemma attribute_error_means_not_subscribed:
  "read_user_is_subscriber r h w = (Inl (AttributeError m), w') \<Longrightarrow>
   is_subscribed r h w = (Inr False, w')"
  by (simp add: is_subscribed_def hasattr_user_is_subscriber_def)

text \<open>The condition of line 148 raises when one of its two reads does.\<close>

lemma is_subscribed_first_read_raises:
  "read_user_is_subscriber r h w = (Inl e, w') \<Longrightarrow> \<forall>m. e \<noteq> AttributeError m \<Longrightarrow>
   is_subscribed r h w = (Inl e, w')"
  by (cases e) (simp_all add: is_subscribed_def hasattr_user_is_subscriber_def)

lemma is_subscribed_second_read_raises:
  "read_user_is_subscriber r h w = (Inr v, w') \<Longrightarrow>
   read_user_is_subscriber r h w' = (Inl e, w'') \<Longrightarrow>
   is_subscribed r h w = (Inl e, w'')"
  by (simp add: is_subscribed_def hasattr_user_is_subscriber_def)

text \<open>
  A pass whose \<^verbatim>\<open>try\<close> body raises appends the classified failure to
  \<^verbatim>\<open>failed_joins\<close>, and the loop goes on with the next record.
\<close>

lemma import_loop_raise:
  "py_get community ''name'' PNone = Inr n \<Longrightarrow> truthy n \<Longrightarrow> try_join r d n w = (Inl e, w') \<Longrightarrow>
   import_loop r d (community # rest) js w
     = import_loop r d rest
         (js\<lparr>failed_joins := failed_joins js @ [(n, spec_reason (str_exn e))]\<rparr>) w'"
  by (simp add: import_record_raise)

text \<open>
  Claim C1, as the code has it. For a record with a truthy name, an exception raised by
  the resolution (\<^verbatim>\<open>reddit.subreddit\<close>), by \<^verbatim>\<open>subscribe\<close>, or by a read of the
  attribute \<^verbatim>\<open>user_is_subscriber\<close> other than an \<^verbatim>\<open>AttributeError\<close> of the first read,
  is recorded: the pass appends to \<^verbatim>\<open>failed_joins\<close> the name with the specification's
  classification of the exception's text (case-insensitive substring match, "private" or
  "forbidden" first, then "not found" or "404", then "banned", and otherwise
  "Unknown error: " followed by the original text), makes no further call, and the loop
  goes on with the next record. An \<^verbatim>\<open>AttributeError\<close> of the first read is not
  recorded: \<^verbatim>\<open>hasattr\<close> swallows it, the account counts as not subscribed, and a dry
  run appends the name to \<^verbatim>\<open>successful_joins\<close>.
\<close>

theorem error_classification:
  assumes "py_get community ''name'' PNone = Inr n" and "truthy n"
  shows "(call_subreddit r n w = (Inl e, wa) \<longrightarrow>
            import_loop r dry_run (community # rest) js w
              = import_loop r dry_run rest
                  (js\<lparr>failed_joins := failed_joins js @ [(n, spec_reason (str_exn e))]\<rparr>) wa)
       \<and> (call_subreddit r n w = (Inr sr, wa)
            \<and> read_user_is_subscriber r sr wa = (Inl e, wb) \<and> (\<forall>m. e \<noteq> AttributeError m) \<longrightarrow>
            import_loop r dry_run (community # rest) js w
              = import_loop r dry_run rest
                  (js\<lparr>failed_joins := failed_joins js @ [(n, spec_reason (str_exn e))]\<rparr>) wb)
       \<and> (call_subreddit r n w = (Inr sr, wa)
            \<and> read_user_is_subscriber r sr wa = (Inr v, wb)
            \<and> read_user_is_subscriber r sr wb = (Inl e, wc) \<longrightarrow>
            import_loop r dry_run (community # rest) js w
              = import_loop r dry_run rest
                  (js\<lparr>failed_joins := failed_joins js @ [(n, spec_reason (str_exn e))]\<rparr>) wc)
       \<and> (call_subreddit r n w = (Inr sr, wa) \<and> is_subscribed r sr wa = (Inr False, wb)
            \<and> call_subscribe r sr wb = (Inl e, wc) \<longrightarrow>
            import_loop r False (community # rest) js w
              = import_loop r False rest
                  (js\<lparr>failed_joins := failed_joins js @ [(n, spec_reason (str_exn e))]\<rparr>) wc)
       \<and> (call_subreddit r n w = (Inr sr, wa)
            \<and> read_user_is_subscriber r sr wa = (Inl (AttributeError m), wb) \<longrightarrow>
            is_subscribed r sr wa = (Inr False, wb)
            \<and> import_loop r True (community # rest) js w
              = import_loop r True rest
                  (js\<lparr>successful_joins := successful_joins js @ [n]\<rparr>) wb)"
proof (intro conjI impI)
  assume "call_subreddit r n w = (Inl e, wa)"
  then have "try_join r dry_run n w = (Inl e, wa)"
    by (simp add: try_join_def)
  with assms show "import_loop r dry_run (community # rest) js w
      = import_loop r dry_run rest
          (js\<lparr>failed_joins := failed_joins js @ [(n, spec_reason (str_exn e))]\<rparr>) wa"
    by (rule import_loop_raise)
next
  assume "call_subreddit r n w = (Inr sr, wa)
      \<and> read_user_is_subscriber r sr wa = (Inl e, wb) \<and> (\<forall>m. e \<noteq> AttributeError m)"
  then have "try_join r dry_run n w = (Inl e, wb)"
    by (simp add: try_join_def is_subscribed_first_read_raises)
  with assms show "import_loop r dry_run (community # rest) js w
      = import_loop r dry_run rest
          (js\<lparr>failed_joins := failed_joins js @ [(n, spec_reason (str_exn e))]\<rparr>) wb"
    by (rule import_loop_raise)
next
  assume "call_subreddit r n w = (Inr sr, wa)
      \<and> read_user_is_subscriber r sr wa = (Inr v, wb)
      \<and> read_user_is_subscriber r sr wb = (Inl e, wc)"
  then have "try_join r dry_run n w = (Inl e, wc)"
    by (simp add: try_join_def is_subscribed_second_read_raises)
  with assms show "import_loop r dry_run (community # rest) js w
      = import_loop r dry_run rest
          (js\<lparr>failed_joins := failed_joins js @ [(n, spec_reason (str_exn e))]\<rparr>) wc"
    by (rule import_loop_raise)
next
  assume "call_subreddit r n w = (Inr sr, wa) \<and> is_subscribed r sr wa = (Inr False, wb)
      \<and> call_subscribe r sr wb = (Inl e, wc)"
  then have "try_join r False n w = (Inl e, wc)"
    by (simp add: try_join_def)
  with assms show "import_loop r False (community # rest) js w
      = import_loop r False rest
          (js\<lparr>failed_joins := failed_joins js @ [(n, spec_reason (str_exn e))]\<rparr>) wc"
    by (rule import_loop_raise)
next
  assume "call_subreddit r n w = (Inr sr, wa)
      \<and> read_user_is_subscriber r sr wa = (Inl (AttributeError m), wb)"
  then have resolved: "call_subreddit r n w = (Inr sr, wa)"
    and swallowed: "is_subscribed r sr wa = (Inr False, wb)"
    by (simp_all add: attribute_error_means_not_subscribed)
  show "is_subscribed r sr wa = (Inr False, wb)"
    by (rule swallowed)
  from resolved swallowed have "try_join r True n w = (Inr (Joined n), wb)"
    by (simp add: try_join_def)
  with assms show "import_loop r True (community # rest) js w
      = import_loop r True rest (js\<lparr>successful_joins := successful_joins js @ [n]\<rparr>) wb"
    by (simp add: import_record_def)
qed

theorem error_classification_witness:
  "import_loop (remote_client (err_on (PStr ''gone'') ''HTTP 404 Not Found'') no_err no_err) True
       [PDict [(''name'', PStr ''gone'')]] no_joins ({}, [])
     = (Inr \<lparr>successful_joins = [],
             failed_joins = [(PStr ''gone'', ''Community not found'')],
             already_joined = []\<rparr>,
        ({}, [Resolve (PStr ''gone'')]))
   \<and> import_loop (remote_client no_err (err_on (PStr ''me'') ''User is banned'') no_err) True
       [PDict [(''name'', PStr ''me'')]] no_joins ({}, [])
     = (Inr \<lparr>successful_joins = [],
             failed_joins = [(PStr ''me'', ''Banned from community'')],
             already_joined = []\<rparr>,
        ({}, [Resolve (PStr ''me''), ReadAttr (PStr ''me'')]))
   \<and> import_loop (remote_client no_err no_err (err_on (PStr ''privatesub'') ''403 Forbidden''))
       False [PDict [(''name'', PStr ''privatesub'')]] no_joins ({}, [])
     = (Inr \<lparr>successful_joins = [],
             failed_joins = [(PStr ''privatesub'', ''Private/Restricted community'')],
             already_joined = []\<rparr>,
        ({}, [Resolve (PStr ''privatesub''), ReadAttr (PStr ''privatesub''),
              ReadAttr (PStr ''privatesub''), Subscribe (PStr ''privatesub'')]))
   \<and> import_loop (remote_client no_err no_err (err_on (PStr ''slow'') ''timeout''))
       False [PDict [(''name'', PStr ''slow'')]] no_joins ({}, [])
     = (Inr \<lparr>successful_joins = [],
             failed_joins = [(PStr ''slow'', ''Unknown error: timeout'')],
             already_joined = []\<rparr>,
        ({}, [Resolve (PStr ''slow''), ReadAttr (PStr ''slow''),
              ReadAttr (PStr ''slow''), Subscribe (PStr ''slow'')]))"
proof -
  have a: "spec_reason ''HTTP 404 Not Found'' = ''Community not found''"
    and b: "spec_reason ''User is banned'' = ''Banned from community''"
    and c: "spec_reason ''403 Forbidden'' = ''Private/Restricted community''"
    and d: "spec_reason ''timeout'' = ''Unknown error: timeout''"
    by code_simp+
  show ?thesis
    using error_classification
      [where community = "PDict [(''name'', PStr ''gone'')]" and n = "PStr ''gone''"
         and r = "remote_client (err_on (PStr ''gone'') ''HTTP 404 Not Found'') no_err no_err"
         and w = "({}, [])" and e = "OtherException ''HTTP 404 Not Found''"
         and wa = "({}, [Resolve (PStr ''gone'')])" and dry_run = True
         and rest = "[]" and js = no_joins]
    error_classification
      [where community = "PDict [(''name'', PStr ''me'')]" and n = "PStr ''me''"
         and r = "remote_client no_err (err_on (PStr ''me'') ''User is banned'') no_err"
         and w = "({}, [])" and e = "OtherException ''User is banned''" and sr = "PStr ''me''"
         and wa = "({}, [Resolve (PStr ''me'')])"
         and wb = "({}, [Resolve (PStr ''me''), ReadAttr (PStr ''me'')])" and dry_run = True
         and rest = "[]" and js = no_joins]
    error_classification
      [where community = "PDict [(''name'', PStr ''privatesub'')]" and n = "PStr ''privatesub''"
         and r = "remote_client no_err no_err (err_on (PStr ''privatesub'') ''403 Forbidden'')"
         and w = "({}, [])" and e = "OtherException ''403 Forbidden''"
         and sr = "PStr ''privatesub''"
         and wa = "({}, [Resolve (PStr ''privatesub'')])"
         and wb = "({}, [Resolve (PStr ''privatesub''), ReadAttr (PStr ''privatesub''),
              ReadAttr (PStr ''privatesub'')])"
         and wc = "({}, [Resolve (PStr ''privatesub''), ReadAttr (PStr ''privatesub''),
              ReadAttr (PStr ''privatesub''), Subscribe (PStr ''privatesub'')])"
         and rest = "[]" and js = no_joins]
    error_classification
      [where community = "PDict [(''name'', PStr ''slow'')]" and n = "PStr ''slow''"
         and r = "remote_client no_err no_err (err_on (PStr ''slow'') ''timeout'')"
         and w = "({}, [])" and e = "OtherException ''timeout''"
         and sr = "PStr ''slow''"
         and wa = "({}, [Resolve (PStr ''slow'')])"
         and wb = "({}, [Resolve (PStr ''slow''), ReadAttr (PStr ''slow''),
              ReadAttr (PStr ''slow'')])"
         and wc = "({}, [Resolve (PStr ''slow''), ReadAttr (PStr ''slow''),
              ReadAttr (PStr ''slow''), Subscribe (PStr ''slow'')])"
         and rest = "[]" and js = no_joins]
    by (simp add: a b c d py_get_def remote_client_def err_on_def no_err_def call_subreddit_def
        is_subscribed_def hasattr_user_is_subscriber_def read_user_is_subscriber_def
        call_subscribe_def no_joins_def)
qed

text \<open>
  Where the claim fails as it is stated. The read of the attribute raises an
  \<^verbatim>\<open>AttributeError\<close> whose text contains "forbidden" and "private"; the record is not a
  failure: the dry run counts it as a community it would join, and the real run
  subscribes to it and counts it as joined.
\<close>

theorem attribute_error_not_classified:
  "import_communities
      (remote_client no_err
         (no_attribute_on (PStr ''privatesub'') ''403 Forbidden: private community'') no_err)
      [PDict [(''name'', PStr ''privatesub'')]] True ({}, [])
     = (Inr \<lparr>join_label = ''Would join'', join_count = 1, already_list = [],
             failed_list = [], total_processed = 1\<rparr>,
        ({}, [Resolve (PStr ''privatesub''), ReadAttr (PStr ''privatesub'')]))
   \<and> import_communities
      (remote_client no_err
         (no_attribute_on (PStr ''privatesub'') ''403 Forbidden: private community'') no_err)
      [PDict [(''name'', PStr ''privatesub'')]] False ({}, [])
     = (Inr \<lparr>join_label = ''Successfully joined'', join_count = 1, already_list = [],
             failed_list = [], total_processed = 1\<rparr>,
        ({PStr ''privatesub''},
         [Resolve (PStr ''privatesub''), ReadAttr (PStr ''privatesub''),
          Subscribe (PStr ''privatesub'')]))"
  by (simp add: import_communities_def import_record_def try_join_def call_subreddit_def
      is_subscribed_def hasattr_user_is_subscriber_def read_user_is_subscriber_def
      call_subscribe_def remote_client_def py_get_def no_err_def no_attribute_on_def
      no_joins_def)

section \<open>The call log\<close>

lemma subscribe_calls_append [simp]:
  "subscribe_calls (xs @ ys) = subscribe_calls xs + subscribe_calls ys"
  by (simp add: subscribe_calls_def)

lemma subscribe_calls_simps [simp]:
  "subscribe_calls [] = 0"
  "subscribe_calls (Resolve n # log) = subscribe_calls log"
  "subscribe_calls (ReadAttr h # log) = subscribe_calls log"
  "subscribe_calls (Subscribe h # log) = Suc (subscribe_calls log)"
  by (simp_all add: subscribe_calls_def)

lemma resolved_names_append [simp]:
  "resolved_names (xs @ ys) = resolved_names xs @ resolved_names ys"
  by (induction xs rule: resolved_names.induct) simp_all

lemma call_subreddit_log:
  "call_subreddit r n w = (res, w') \<Longrightarrow> snd w' = snd w @ [Resolve n]"
  by (auto simp: call_subreddit_def split: prod.splits)

lemma read_user_is_subscriber_log:
  "read_user_is_subscriber r h w = (res, w') \<Longrightarrow> snd w' = snd w @ [ReadAttr h]"
  by (auto simp: read_user_is_subscriber_def split: prod.splits)

lemma call_subscribe_log:
  "call_subscribe r h w = (res, w') \<Longrightarrow> snd w' = snd w @ [Subscribe h]"
  by (auto simp: call_subscribe_def split: prod.splits)

lemma hasattr_log:
  "hasattr_user_is_subscriber r h w = (res, w') \<Longrightarrow> snd w' = snd w @ [ReadAttr h]"
  by (auto simp: hasattr_user_is_subscriber_def
      split: prod.splits sum.splits exn.splits dest: read_user_is_subscriber_log)

lemma is_subscribed_log:
  "is_subscribed r h w = (res, w') \<Longrightarrow>
   snd w' = snd w @ [ReadAttr h] \<or> snd w' = snd w @ [ReadAttr h, ReadAttr h]"
  by (auto simp: is_subscribed_def
      split: prod.splits sum.splits bool.splits if_splits
      dest!: read_user_is_subscriber_log hasattr_log)


section \<open>One pass against the remote platform\<close>

lemma call_subreddit_remote:
  "call_subreddit (remote_client re qe se) n (S, l) =
     (case re n of Some e \<Rightarrow> Inl e | None \<Rightarrow> Inr n, (S, l @ [Resolve n]))"
  by (simp add: call_subreddit_def remote_client_def)

lemma read_user_is_subscriber_remote:
  "read_user_is_subscriber (remote_client re qe se) h (S, l) =
     (case qe h of Some e \<Rightarrow> Inl e | None \<Rightarrow> Inr (PBool (h \<in> S)),
      (S, l @ [ReadAttr h]))"
  by (simp add: read_user_is_subscriber_def remote_client_def)

lemma is_subscribed_remote:
  "is_subscribed (remote_client re qe se) h (S, l) =
     (case qe h of
        Some (AttributeError m) \<Rightarrow> (Inr False, (S, l @ [ReadAttr h]))
      | Some e \<Rightarrow> (Inl e, (S, l @ [ReadAttr h]))
      | None \<Rightarrow> (Inr (h \<in> S), (S, l @ [ReadAttr h, ReadAttr h])))"
  by (simp add: is_subscribed_def hasattr_user_is_subscriber_def
      read_user_is_subscriber_remote split: option.splits exn.splits)

lemma call_subscribe_remote:
  "call_subscribe (remote_client re qe se) h (S, l) =
     (case se h of
        Some e \<Rightarrow> (Inl e, (S, l @ [Subscribe h]))
      | None \<Rightarrow> (Inr (), (insert h S, l @ [Subscribe h])))"
  by (simp add: call_subscribe_def remote_client_def split: option.splits)

lemma try_join_remote:
  "try_join (remote_client re qe se) d n (S, l) =
     (case re n of
        Some e \<Rightarrow> (Inl e, (S, l @ [Resolve n]))
      | None \<Rightarrow> (case qe n of
          Some (AttributeError m) \<Rightarrow>
            if d
            then (Inr (Joined n), (S, l @ [Resolve n, ReadAttr n]))
            else (case se n of
              Some e \<Rightarrow> (Inl e, (S, l @ [Resolve n, ReadAttr n, Subscribe n]))
            | None \<Rightarrow>
                (Inr (Joined n), (insert n S, l @ [Resolve n, ReadAttr n, Subscribe n])))
        | Some e \<Rightarrow> (Inl e, (S, l @ [Resolve n, ReadAttr n]))
        | None \<Rightarrow>
            if n \<in> S
            then (Inr (AlreadyJoined n), (S, l @ [Resolve n, ReadAttr n, ReadAttr n]))
            else if d
            then (Inr (Joined n), (S, l @ [Resolve n, ReadAttr n, ReadAttr n]))
            else (case se n of
              Some e \<Rightarrow>
                (Inl e, (S, l @ [Resolve n, ReadAttr n, ReadAttr n, Subscribe n]))
            | None \<Rightarrow>
                (Inr (Joined n),
                 (insert n S, l @ [Resolve n, ReadAttr n, ReadAttr n, Subscribe n])))))"
  by (simp add: try_join_def call_subreddit_remote is_subscribed_remote call_subscribe_remote
      split: option.splits exn.splits)

text \<open>One pass against the remote platform, case by case.\<close>

lemma import_record_remote:
  "import_record (remote_client re qe se) d c (S, l) =
     (case py_get c ''name'' PNone of
        Inl e \<Rightarrow> (Inl e, (S, l))
      | Inr n \<Rightarrow>
          if \<not> truthy n
          then (Inr (Failed (PStr ''Unknown'') ''Missing community name''), (S, l))
          else (case re n of
            Some e \<Rightarrow> (Inr (classify n e), (S, l @ [Resolve n]))
          | None \<Rightarrow> (case qe n of
              Some (AttributeError m) \<Rightarrow>
                if d
                then (Inr (Joined n), (S, l @ [Resolve n, ReadAttr n]))
                else (case se n of
                  Some e \<Rightarrow>
                    (Inr (classify n e), (S, l @ [Resolve n, ReadAttr n, Subscribe n]))
                | None \<Rightarrow>
                    (Inr (Joined n), (insert n S, l @ [Resolve n, ReadAttr n, Subscribe n])))
            | Some e \<Rightarrow> (Inr (classify n e), (S, l @ [Resolve n, ReadAttr n]))
            | None \<Rightarrow>
                if n \<in> S
                then (Inr (AlreadyJoined n), (S, l @ [Resolve n, ReadAttr n, ReadAttr n]))
                else if d
                then (Inr (Joined n), (S, l @ [Resolve n, ReadAttr n, ReadAttr n]))
                else (case se n of
                  Some e \<Rightarrow>
                    (Inr (classify n e),
                     (S, l @ [Resolve n, ReadAttr n, ReadAttr n, Subscribe n]))
                | None \<Rightarrow>
                    (Inr (Joined n),
                     (insert n S, l @ [Resolve n, ReadAttr n, ReadAttr n, Subscribe n]))))))"
  by (simp add: import_record_def try_join_remote split: sum.splits option.splits exn.splits)

section \<open>Already subscribed\<close>



section \<open>Records without a name\<close>




section \<open>Dry run\<close>

lemma try_join_dry_subscribe_calls:
  "try_join r True n w = (res, w') \<Longrightarrow> subscribe_calls (snd w') = subscribe_calls (snd w)"
  by (auto simp: try_join_def split: prod.splits sum.splits bool.splits
      dest!: call_subreddit_log is_subscribed_log)

lemma import_record_dry_subscribe_calls:
  "import_record r True c w = (res, w') \<Longrightarrow> subscribe_calls (snd w') = subscribe_calls (snd w)"
  by (auto simp: import_record_def split: prod.splits sum.splits if_splits
      dest!: try_join_dry_subscribe_calls)

lemma import_loop_dry_subscribe_calls:
  "import_loop r True cs js w = (res, w') \<Longrightarrow> subscribe_calls (snd w') = subscribe_calls (snd w)"
proof (induction cs arbitrary: js w)
  case Nil
  then show ?case by simp
next
  case (Cons c cs)
  obtain res1 w1 where step: "import_record r True c w = (res1, w1)"
    by (cases "import_record r True c w")
  then have w1: "subscribe_calls (snd w1) = subscribe_calls (snd w)"
    by (rule import_record_dry_subscribe_calls)
  show ?case
  proof (cases res1)
    case (Inl e)
    with Cons.prems step w1 show ?thesis by simp
  next
    case (Inr out)
    with Cons.prems step have "import_loop r True cs (append_outcome out js) w1 = (res, w')"
      by simp
    then show ?thesis using Cons.IH w1 by simp
  qed
qed

text \<open>
  Claim C4. With \<open>dry_run\<close> true, for every input list, every client and every state of
  it, the run adds no \<^verbatim>\<open>subscribe\<close> call to the log, whether it ends with a summary or
  with an exception.
\<close>

theorem dry_run_never_subscribes:
  "subscribe_calls (snd (snd (import_communities r communities True (c, log))))
     = subscribe_calls log"
proof -
  obtain res w' where run: "import_loop r True communities no_joins (c, log) = (res, w')"
    by (cases "import_loop r True communities no_joins (c, log)")
  then have "subscribe_calls (snd w') = subscribe_calls log"
    by (auto dest: import_loop_dry_subscribe_calls)
  then show ?thesis
    using run by (cases res) (simp_all add: import_communities_def)
qed

section \<open>The loop\<close>


lemma community_names_Cons:
  "community_names (c # cs) =
     (case community_name c of None \<Rightarrow> [] | Some n \<Rightarrow> [n]) @ community_names cs"
  by (simp add: community_names_def List.map_filter_simps split: option.splits)

lemma community_names_Nil [simp]: "community_names [] = []"
  by (simp add: community_names_def List.map_filter_simps)

text \<open>A pass over a dictionary always ends with an outcome: nothing leaves the loop.\<close>

lemma import_record_PDict:
  "\<exists>out w'. import_record r d (PDict kvs) w = (Inr out, w')"
  by (cases "try_join r d (case map_of kvs ''name'' of None \<Rightarrow> PNone | Some v \<Rightarrow> v) w")
     (auto simp: import_record_def py_get_def split: sum.splits)

lemma try_join_resolved:
  "try_join r d n w = (res, w') \<Longrightarrow> resolved_names (snd w') = resolved_names (snd w) @ [n]"
  by (auto simp: try_join_def split: prod.splits sum.splits bool.splits if_splits
      dest!: call_subreddit_log is_subscribed_log call_subscribe_log)

lemma try_join_subscribe_calls:
  "try_join r d n w = (res, w') \<Longrightarrow> subscribe_calls (snd w') \<le> Suc (subscribe_calls (snd w))"
  by (auto simp: try_join_def split: prod.splits sum.splits bool.splits if_splits
      dest!: call_subreddit_log is_subscribed_log call_subscribe_log)

lemma import_record_resolved:
  "import_record r d c w = (res, w') \<Longrightarrow>
   resolved_names (snd w') =
     resolved_names (snd w) @ (case community_name c of None \<Rightarrow> [] | Some n \<Rightarrow> [n])"
  by (auto simp: import_record_def community_name_def
      split: prod.splits sum.splits if_splits dest!: try_join_resolved)

lemma import_record_subscribe_calls:
  "import_record r d c w = (res, w') \<Longrightarrow>
   subscribe_calls (snd w') \<le>
     subscribe_calls (snd w) + length (case community_name c of None \<Rightarrow> [] | Some n \<Rightarrow> [n])"
  by (auto simp: import_record_def community_name_def
      split: prod.splits sum.splits if_splits dest!: try_join_subscribe_calls)

text \<open>The loop appends the outcomes in order.\<close>

lemma import_loop_outcomes:
  "import_loop r d cs js w = (Inr js', w') \<Longrightarrow>
   js' = foldl (\<lambda>acc out. append_outcome out acc) js (outcomes r d cs w)
   \<and> length (outcomes r d cs w) = length cs"
proof (induction cs arbitrary: js w)
  case Nil
  then show ?case by simp
next
  case (Cons c cs)
  obtain res1 w1 where step: "import_record r d c w = (res1, w1)"
    by (cases "import_record r d c w")
  show ?case
  proof (cases res1)
    case (Inl e)
    with Cons.prems step show ?thesis by simp
  next
    case (Inr out)
    with Cons.prems step have "import_loop r d cs (append_outcome out js) w1 = (Inr js', w')"
      by simp
    from Cons.IH [OF this] show ?thesis using step Inr by simp
  qed
qed

lemma entries_append_outcome: "entries (append_outcome out js) = Suc (entries js)"
  by (cases out) (simp_all add: entries_def)

lemma import_loop_entries:
  "import_loop r d cs js w = (Inr js', w') \<Longrightarrow> entries js' = entries js + length cs"
proof (induction cs arbitrary: js w)
  case Nil
  then show ?case by simp
next
  case (Cons c cs)
  obtain res1 w1 where step: "import_record r d c w = (res1, w1)"
    by (cases "import_record r d c w")
  show ?case
  proof (cases res1)
    case (Inl e)
    with Cons.prems step show ?thesis by simp
  next
    case (Inr out)
    with Cons.prems step have "import_loop r d cs (append_outcome out js) w1 = (Inr js', w')"
      by simp
    from Cons.IH [OF this] show ?thesis by (simp add: entries_append_outcome)
  qed
qed

text \<open>
  Over a list of dictionaries the loop runs to its end, whatever the client does; it
  resolves the truthy names in the order of the input, each once, and calls
  \<^verbatim>\<open>subscribe\<close> at most once for each of them.
\<close>

lemma import_loop_records:
  "\<exists>js' w'. import_loop r d (map PDict ds) js w = (Inr js', w')
     \<and> resolved_names (snd w') = resolved_names (snd w) @ community_names (map PDict ds)
     \<and> subscribe_calls (snd w')
         \<le> subscribe_calls (snd w) + length (community_names (map PDict ds))"
proof (induction ds arbitrary: js w)
  case Nil
  show ?case by simp
next
  case (Cons kvs ds)
  obtain out w1 where step: "import_record r d (PDict kvs) w = (Inr out, w1)"
    using import_record_PDict by blast
  obtain js' w' where rest: "import_loop r d (map PDict ds) (append_outcome out js) w1 = (Inr js', w')"
    and names: "resolved_names (snd w') = resolved_names (snd w1) @ community_names (map PDict ds)"
    and calls: "subscribe_calls (snd w')
         \<le> subscribe_calls (snd w1) + length (community_names (map PDict ds))"
    using Cons.IH by blast
  have "import_loop r d (map PDict (kvs # ds)) js w = (Inr js', w')"
    using step rest by simp
  moreover have "resolved_names (snd w')
      = resolved_names (snd w) @ community_names (map PDict (kvs # ds))"
    using names import_record_resolved [OF step] by (simp add: community_names_Cons)
  moreover have "subscribe_calls (snd w')
      \<le> subscribe_calls (snd w) + length (community_names (map PDict (kvs # ds)))"
    using calls import_record_subscribe_calls [OF step] by (simp add: community_names_Cons)
  ultimately show ?case by blast
qed

text \<open>
  The calls of one pass are those of one attempt at the record: no operation is made a
  second time.
\<close>

lemma try_join_one_attempt:
  "try_join r d n w = (res, w') \<Longrightarrow> \<exists>calls. snd w' = snd w @ calls \<and> one_attempt (Some n) calls"
  by (auto simp: try_join_def split: prod.splits sum.splits bool.splits if_splits
      dest!: call_subreddit_log is_subscribed_log call_subscribe_log)

lemma import_record_one_attempt:
  "import_record r d c w = (res, w') \<Longrightarrow>
   \<exists>calls. snd w' = snd w @ calls \<and> one_attempt (community_name c) calls"
  by (auto simp: import_record_def community_name_def
      split: prod.splits sum.splits if_splits dest!: try_join_one_attempt)

lemma import_loop_attempts:
  "import_loop r d (map PDict ds) js w = (res, w') \<Longrightarrow>
   \<exists>segs. snd w' = snd w @ concat segs
     \<and> list_all2 (\<lambda>kvs calls. one_attempt (community_name (PDict kvs)) calls) ds segs"
proof (induction ds arbitrary: js w)
  case Nil
  then show ?case by simp
next
  case (Cons kvs ds)
  obtain out w1 where step: "import_record r d (PDict kvs) w = (Inr out, w1)"
    using import_record_PDict by blast
  then obtain calls where calls: "snd w1 = snd w @ calls"
    and one: "one_attempt (community_name (PDict kvs)) calls"
    using import_record_one_attempt by blast
  from Cons.prems step
  have "import_loop r d (map PDict ds) (append_outcome out js) w1 = (res, w')"
    by simp
  from Cons.IH [OF this] obtain segs where segs: "snd w' = snd w1 @ concat segs"
    and all: "list_all2 (\<lambda>kvs calls. one_attempt (community_name (PDict kvs)) calls) ds segs"
    by blast
  have "snd w' = snd w @ concat (calls # segs)"
    using calls segs by simp
  moreover have "list_all2 (\<lambda>kvs calls. one_attempt (community_name (PDict kvs)) calls)
      (kvs # ds) (calls # segs)"
    using one all by simp
  ultimately show ?case by blast
qed

text \<open>A call that raises is the last call of its pass.\<close>

lemma import_record_raise_world:
  "py_get community ''name'' PNone = Inr n \<Longrightarrow> truthy n \<Longrightarrow> try_join r d n w = (Inl e, w') \<Longrightarrow>
   snd (import_record r d community w) = w'"
  by (simp add: import_record_def)

text \<open>
  Claim C6, as the code has it. For every list whose entries are records (dictionaries,
  with or without a name) and every client, whatever its operations return or raise, the
  run ends with a summary and not with an exception; the total it reports is the length
  of the input, and so is the number of entries of its three lists together; there is
  one outcome for every record. The calls of the run are, record by record in the order
  of the input, those of one attempt: none for a record without a name, and for a name
  its resolution, once, then at most the two reads of the attribute that the condition
  of line 148 makes, then at most one \<^verbatim>\<open>subscribe\<close>. No operation is tried again after
  it raised: for a record with a truthy name, in any state, when the resolution raises,
  when a read of the attribute raises (an \<^verbatim>\<open>AttributeError\<close> of the first read apart)
  or when \<^verbatim>\<open>subscribe\<close> raises, the pass ends in the state that call left, the
  raising call being the last entry it added to the log. An \<^verbatim>\<open>AttributeError\<close> of the
  first read means that the attribute is not there: the attribute is not read again, the
  dry run ends the pass there, and the real run ends it after the one \<^verbatim>\<open>subscribe\<close>
  that follows.
\<close>

theorem every_record_processed:
  "(\<exists>s c' segs.
      import_communities r (map PDict ds) dry_run (c, []) = (Inr s, (c', concat segs))
    \<and> total_processed s = length ds
    \<and> join_count s + length (failed_list s) + length (already_list s) = length ds
    \<and> length (outcomes r dry_run (map PDict ds) (c, [])) = length ds
    \<and> list_all2 (\<lambda>kvs calls. one_attempt (community_name (PDict kvs)) calls) ds segs
    \<and> resolved_names (concat segs) = community_names (map PDict ds)
    \<and> subscribe_calls (concat segs) \<le> length (community_names (map PDict ds)))
   \<and> (py_get community ''name'' PNone = Inr n \<and> truthy n \<longrightarrow>
        (call_subreddit r n w = (Inl e, wa) \<longrightarrow>
           snd (import_record r dry_run community w) = wa
           \<and> snd wa = snd w @ [Resolve n])
      \<and> (call_subreddit r n w = (Inr sr, wa)
           \<and> read_user_is_subscriber r sr wa = (Inl e, wb) \<and> (\<forall>m. e \<noteq> AttributeError m) \<longrightarrow>
           snd (import_record r dry_run community w) = wb
           \<and> snd wb = snd w @ [Resolve n, ReadAttr sr])
      \<and> (call_subreddit r n w = (Inr sr, wa)
           \<and> read_user_is_subscriber r sr wa = (Inr v, wb)
           \<and> read_user_is_subscriber r sr wb = (Inl e, wc) \<longrightarrow>
           snd (import_record r dry_run community w) = wc
           \<and> snd wc = snd w @ [Resolve n, ReadAttr sr, ReadAttr sr])
      \<and> (call_subreddit r n w = (Inr sr, wa) \<and> is_subscribed r sr wa = (Inr False, wb)
           \<and> call_subscribe r sr wb = (Inl e, wc) \<longrightarrow>
           snd (import_record r False community w) = wc
           \<and> snd wc = snd wb @ [Subscribe sr]
           \<and> subscribe_calls (snd wc) = Suc (subscribe_calls (snd w)))
      \<and> (call_subreddit r n w = (Inr sr, wa)
           \<and> read_user_is_subscriber r sr wa = (Inl (AttributeError m), wb)
           \<and> call_subscribe r sr wb = (res, wc) \<longrightarrow>
           snd (import_record r True community w) = wb
           \<and> snd (import_record r False community w) = wc
           \<and> snd wc = snd w @ [Resolve n, ReadAttr sr, Subscribe sr]))"
proof (intro conjI impI)
  obtain js' w' where run: "import_loop r dry_run (map PDict ds) no_joins (c, []) = (Inr js', w')"
    and names: "resolved_names (snd w') = community_names (map PDict ds)"
    and calls: "subscribe_calls (snd w') \<le> length (community_names (map PDict ds))"
    using import_loop_records [of r dry_run ds no_joins "(c, [])"] by auto
  have len: "length (outcomes r dry_run (map PDict ds) (c, [])) = length ds"
    using import_loop_outcomes [OF run] by simp
  have sum: "entries js' = length ds"
    using import_loop_entries [OF run] by (simp add: entries_def no_joins_def)
  obtain segs where segs: "snd w' = concat segs"
    and all: "list_all2 (\<lambda>kvs calls. one_attempt (community_name (PDict kvs)) calls) ds segs"
    using import_loop_attempts [OF run] by auto
  obtain c' where w': "w' = (c', concat segs)"
    using segs by (cases w') simp
  show "\<exists>s c' segs.
      import_communities r (map PDict ds) dry_run (c, []) = (Inr s, (c', concat segs))
    \<and> total_processed s = length ds
    \<and> join_count s + length (failed_list s) + length (already_list s) = length ds
    \<and> length (outcomes r dry_run (map PDict ds) (c, [])) = length ds
    \<and> list_all2 (\<lambda>kvs calls. one_attempt (community_name (PDict kvs)) calls) ds segs
    \<and> resolved_names (concat segs) = community_names (map PDict ds)
    \<and> subscribe_calls (concat segs) \<le> length (community_names (map PDict ds))"
    using run names calls len sum all w'
    by (auto simp: import_communities_def entries_def)
next
  assume name: "py_get community ''name'' PNone = Inr n \<and> truthy n"
    and "call_subreddit r n w = (Inl e, wa)"
  then show "snd (import_record r dry_run community w) = wa"
    and "snd wa = snd w @ [Resolve n]"
    by (simp_all add: import_record_raise_world try_join_def call_subreddit_log)
next
  assume name: "py_get community ''name'' PNone = Inr n \<and> truthy n"
    and raised: "call_subreddit r n w = (Inr sr, wa)
      \<and> read_user_is_subscriber r sr wa = (Inl e, wb) \<and> (\<forall>m. e \<noteq> AttributeError m)"
  then have "try_join r dry_run n w = (Inl e, wb)"
    by (simp add: try_join_def is_subscribed_first_read_raises)
  with name show "snd (import_record r dry_run community w) = wb"
    by (simp add: import_record_raise_world)
  from raised show "snd wb = snd w @ [Resolve n, ReadAttr sr]"
    by (auto dest!: call_subreddit_log read_user_is_subscriber_log)
next
  assume name: "py_get community ''name'' PNone = Inr n \<and> truthy n"
    and raised: "call_subreddit r n w = (Inr sr, wa)
      \<and> read_user_is_subscriber r sr wa = (Inr v, wb)
      \<and> read_user_is_subscriber r sr wb = (Inl e, wc)"
  then have "try_join r dry_run n w = (Inl e, wc)"
    by (simp add: try_join_def is_subscribed_second_read_raises)
  with name show "snd (import_record r dry_run community w) = wc"
    by (simp add: import_record_raise_world)
  from raised show "snd wc = snd w @ [Resolve n, ReadAttr sr, ReadAttr sr]"
    by (auto dest!: call_subreddit_log read_user_is_subscriber_log)
next
  assume name: "py_get community ''name'' PNone = Inr n \<and> truthy n"
    and raised: "call_subreddit r n w = (Inr sr, wa) \<and> is_subscribed r sr wa = (Inr False, wb)
      \<and> call_subscribe r sr wb = (Inl e, wc)"
  then have "try_join r False n w = (Inl e, wc)"
    by (simp add: try_join_def)
  with name show "snd (import_record r False community w) = wc"
    by (simp add: import_record_raise_world)
  from raised show "snd wc = snd wb @ [Subscribe sr]"
    by (auto dest!: call_subscribe_log)
  from raised show "subscribe_calls (snd wc) = Suc (subscribe_calls (snd w))"
    by (auto dest!: call_subreddit_log is_subscribed_log call_subscribe_log)
next
  assume name: "py_get community ''name'' PNone = Inr n \<and> truthy n"
    and absent: "call_subreddit r n w = (Inr sr, wa)
      \<and> read_user_is_subscriber r sr wa = (Inl (AttributeError m), wb)
      \<and> call_subscribe r sr wb = (res, wc)"
  then have swallowed: "is_subscribed r sr wa = (Inr False, wb)"
    by (simp add: attribute_error_means_not_subscribed)
  with name absent show "snd (import_record r True community w) = wb"
    by (simp add: import_record_def try_join_def)
  from name absent swallowed show "snd (import_record r False community w) = wc"
    by (cases res) (simp_all add: import_record_def try_join_def)
  from absent show "snd wc = snd w @ [Resolve n, ReadAttr sr, Subscribe sr]"
    by (auto dest!: call_subreddit_log read_user_is_subscriber_log call_subscribe_log)
qed

theorem every_record_processed_witness:
  "import_communities
      (remote_client no_err no_err (err_on (PStr ''privatesub'') ''403 Forbidden''))
      [PDict [(''name'', PStr ''python'')], PDict [(''title'', PStr ''No name'')],
       PDict [(''name'', PStr ''privatesub'')]]
      False ({}, [])
     = (Inr \<lparr>join_label = ''Successfully joined'', join_count = 1, already_list = [],
             failed_list = [(PStr ''Unknown'', ''Missing community name''),
                            (PStr ''privatesub'', ''Private/Restricted community'')],
             total_processed = 3\<rparr>,
        ({PStr ''python''},
         [Resolve (PStr ''python''), ReadAttr (PStr ''python''), ReadAttr (PStr ''python''),
          Subscribe (PStr ''python''), Resolve (PStr ''privatesub''),
          ReadAttr (PStr ''privatesub''), ReadAttr (PStr ''privatesub''),
          Subscribe (PStr ''privatesub'')]))
   \<and> (\<exists>segs.
        [Resolve (PStr ''python''), ReadAttr (PStr ''python''), ReadAttr (PStr ''python''),
         Subscribe (PStr ''python''), Resolve (PStr ''privatesub''),
         ReadAttr (PStr ''privatesub''), ReadAttr (PStr ''privatesub''),
         Subscribe (PStr ''privatesub'')] = concat segs
      \<and> list_all2 (\<lambda>kvs calls. one_attempt (community_name (PDict kvs)) calls)
          [[(''name'', PStr ''python'')], [(''title'', PStr ''No name'')],
           [(''name'', PStr ''privatesub'')]] segs)
   \<and> snd (import_record
        (remote_client no_err no_err (err_on (PStr ''privatesub'') ''403 Forbidden'')) False
        (PDict [(''name'', PStr ''privatesub'')]) ({PStr ''python''}, []))
     = ({PStr ''python''},
        [Resolve (PStr ''privatesub''), ReadAttr (PStr ''privatesub''),
         ReadAttr (PStr ''privatesub''), Subscribe (PStr ''privatesub'')])"
proof -
  let ?R = "remote_client no_err no_err (err_on (PStr ''privatesub'') ''403 Forbidden'')"
  let ?ds = "[[(''name'', PStr ''python'')], [(''title'', PStr ''No name'')],
              [(''name'', PStr ''privatesub'')]]"
  let ?log = "[Resolve (PStr ''python''), ReadAttr (PStr ''python''), ReadAttr (PStr ''python''),
          Subscribe (PStr ''python''), Resolve (PStr ''privatesub''),
          ReadAttr (PStr ''privatesub''), ReadAttr (PStr ''privatesub''),
          Subscribe (PStr ''privatesub'')]"
  have reason: "classify (PStr ''privatesub'') (OtherException ''403 Forbidden'')
      = Failed (PStr ''privatesub'') ''Private/Restricted community''"
    by code_simp
  have run: "import_communities ?R (map PDict ?ds) False ({}, [])
     = (Inr \<lparr>join_label = ''Successfully joined'', join_count = 1, already_list = [],
             failed_list = [(PStr ''Unknown'', ''Missing community name''),
                            (PStr ''privatesub'', ''Private/Restricted community'')],
             total_processed = 3\<rparr>,
        ({PStr ''python''}, ?log))"
    by (simp add: import_communities_def import_record_remote py_get_def no_err_def err_on_def
        no_joins_def reason)
  note all = every_record_processed
      [where r = ?R and ds = ?ds and dry_run = False and c = "{}"
         and community = "PDict [(''name'', PStr ''privatesub'')]" and n = "PStr ''privatesub''"
         and w = "({PStr ''python''}, [])" and sr = "PStr ''privatesub''"
         and e = "OtherException ''403 Forbidden''"
         and wa = "({PStr ''python''}, [Resolve (PStr ''privatesub'')])"
         and wb = "({PStr ''python''}, [Resolve (PStr ''privatesub''),
              ReadAttr (PStr ''privatesub''), ReadAttr (PStr ''privatesub'')])"
         and wc = "({PStr ''python''}, [Resolve (PStr ''privatesub''),
              ReadAttr (PStr ''privatesub''), ReadAttr (PStr ''privatesub''),
              Subscribe (PStr ''privatesub'')])"]
  from all obtain s c' segs where
    "import_communities ?R (map PDict ?ds) False ({}, []) = (Inr s, (c', concat segs))"
    and "list_all2 (\<lambda>kvs calls. one_attempt (community_name (PDict kvs)) calls) ?ds segs"
    by blast
  with run have attempts: "\<exists>segs. ?log = concat segs
      \<and> list_all2 (\<lambda>kvs calls. one_attempt (community_name (PDict kvs)) calls) ?ds segs"
    by auto
  have last: "snd (import_record ?R False (PDict [(''name'', PStr ''privatesub'')])
        ({PStr ''python''}, []))
     = ({PStr ''python''},
        [Resolve (PStr ''privatesub''), ReadAttr (PStr ''privatesub''),
         ReadAttr (PStr ''privatesub''), Subscribe (PStr ''privatesub'')])"
    using all [THEN conjunct2]
    by (simp add: py_get_def call_subreddit_remote is_subscribed_remote call_subscribe_remote
        no_err_def err_on_def)
  show ?thesis
    using run attempts last by simp
qed

text \<open>
  Where the claim fails as it is stated. \<^verbatim>\<open>load_communities_file\<close> checks that
  \<^verbatim>\<open>communities\<close> is a list, not what its entries are. For an entry that is not a
  dictionary, \<^verbatim>\<open>community.get\<close> of line 139 raises outside the inner \<^verbatim>\<open>try\<close>, and the
  outer handler ends the run with \<^verbatim>\<open>Import failed\<close>: here after the first community
  has been subscribed to, and with no summary.
\<close>

theorem non_record_entry_aborts:
  "import_communities (remote_client no_err no_err no_err)
      [PDict [(''name'', PStr ''python'')], PStr ''rust''] False ({}, [])
     = (Inl (ClickException
              (''Import failed: '' @ [CHR 0x27] @ ''str'' @ [CHR 0x27]
               @ '' object has no attribute '' @ [CHR 0x27] @ ''get'' @ [CHR 0x27])),
        ({PStr ''python''},
         [Resolve (PStr ''python''), ReadAttr (PStr ''python''), ReadAttr (PStr ''python''),
          Subscribe (PStr ''python'')]))"
  by (simp add: import_communities_def import_record_def try_join_def call_subreddit_def
      is_subscribed_def hasattr_user_is_subscriber_def read_user_is_subscriber_def
      call_subscribe_def remote_client_def py_get_def no_err_def no_joins_def)

text \<open>
  Claim C9. Each pass over a record, one without a name included, ends with an outcome,
  and appending it extends exactly one of the three lists by one entry and leaves the
  other two as they were; over a list of records the loop runs to its end; and whenever
  the loop has run to its end, the three counts of the summary add up to the length of
  the input, which is also the total it reports.
\<close>

theorem three_lists_partition:
  "(\<exists>out w'. import_record r dry_run (PDict kvs) w = (Inr out, w')
      \<and> ((\<exists>n. successful_joins (append_outcome out js) = successful_joins js @ [n]
              \<and> failed_joins (append_outcome out js) = failed_joins js
              \<and> already_joined (append_outcome out js) = already_joined js)
         \<or> (\<exists>n err. successful_joins (append_outcome out js) = successful_joins js
              \<and> failed_joins (append_outcome out js) = failed_joins js @ [(n, err)]
              \<and> already_joined (append_outcome out js) = already_joined js)
         \<or> (\<exists>n. successful_joins (append_outcome out js) = successful_joins js
              \<and> failed_joins (append_outcome out js) = failed_joins js
              \<and> already_joined (append_outcome out js) = already_joined js @ [n])))
   \<and> (\<exists>s w'. import_communities r (map PDict ds) dry_run w = (Inr s, w'))
   \<and> (\<forall>s w'. import_communities r cs dry_run w = (Inr s, w') \<longrightarrow>
         join_count s + length (failed_list s) + length (already_list s) = length cs
         \<and> total_processed s = length cs)"
proof (intro conjI allI impI)
  obtain out w' where step: "import_record r dry_run (PDict kvs) w = (Inr out, w')"
    using import_record_PDict by blast
  then show "\<exists>out w'. import_record r dry_run (PDict kvs) w = (Inr out, w')
      \<and> ((\<exists>n. successful_joins (append_outcome out js) = successful_joins js @ [n]
              \<and> failed_joins (append_outcome out js) = failed_joins js
              \<and> already_joined (append_outcome out js) = already_joined js)
         \<or> (\<exists>n err. successful_joins (append_outcome out js) = successful_joins js
              \<and> failed_joins (append_outcome out js) = failed_joins js @ [(n, err)]
              \<and> already_joined (append_outcome out js) = already_joined js)
         \<or> (\<exists>n. successful_joins (append_outcome out js) = successful_joins js
              \<and> failed_joins (append_outcome out js) = failed_joins js
              \<and> already_joined (append_outcome out js) = already_joined js @ [n]))"
    by (cases out) simp_all
next
  obtain js' w' where "import_loop r dry_run (map PDict ds) no_joins w = (Inr js', w')"
    using import_loop_records [of r dry_run ds no_joins w] by blast
  then show "\<exists>s w'. import_communities r (map PDict ds) dry_run w = (Inr s, w')"
    by (simp add: import_communities_def)
next
  fix s w'
  assume run: "import_communities r cs dry_run w = (Inr s, w')"
  then obtain js' where loop: "import_loop r dry_run cs no_joins w = (Inr js', w')"
    and s: "s = \<lparr>join_label = (if dry_run then ''Would join'' else ''Successfully joined''),
                join_count = length (successful_joins js'),
                already_list = already_joined js',
                failed_list = failed_joins js',
                total_processed = length cs\<rparr>"
    by (auto simp: import_communities_def split: prod.splits sum.splits)
  have "entries js' = length cs"
    using import_loop_entries [OF loop] by (simp add: entries_def no_joins_def)
  then show "join_count s + length (failed_list s) + length (already_list s) = length cs"
    by (simp add: s entries_def)
  show "total_processed s = length cs"
    by (simp add: s)
qed

theorem three_lists_partition_witness:
  "import_communities
      (remote_client no_err no_err (err_on (PStr ''privatesub'') ''403 Forbidden''))
      [PDict [(''name'', PStr ''python'')], PDict [(''title'', PStr ''No name'')],
       PDict [(''name'', PStr ''privatesub'')]]
      False ({}, [])
     = (Inr \<lparr>join_label = ''Successfully joined'', join_count = 1, already_list = [],
             failed_list = [(PStr ''Unknown'', ''Missing community name''),
                            (PStr ''privatesub'', ''Private/Restricted community'')],
             total_processed = 3\<rparr>,
        ({PStr ''python''},
         [Resolve (PStr ''python''), ReadAttr (PStr ''python''), ReadAttr (PStr ''python''),
          Subscribe (PStr ''python''), Resolve (PStr ''privatesub''),
          ReadAttr (PStr ''privatesub''), ReadAttr (PStr ''privatesub''),
          Subscribe (PStr ''privatesub'')]))
   \<and> (1::nat) + length [(PStr ''Unknown'', ''Missing community name''),
                        (PStr ''privatesub'', ''Private/Restricted community'')]
       + length ([] :: pyval list)
     = length [PDict [(''name'', PStr ''python'')], PDict [(''title'', PStr ''No name'')],
               PDict [(''name'', PStr ''privatesub'')]]"
proof -
  have reason: "classify (PStr ''privatesub'') (OtherException ''403 Forbidden'')
      = Failed (PStr ''privatesub'') ''Private/Restricted community''"
    by code_simp
  have run: "import_communities
      (remote_client no_err no_err (err_on (PStr ''privatesub'') ''403 Forbidden''))
      [PDict [(''name'', PStr ''python'')], PDict [(''title'', PStr ''No name'')],
       PDict [(''name'', PStr ''privatesub'')]]
      False ({}, [])
     = (Inr \<lparr>join_label = ''Successfully joined'', join_count = 1, already_list = [],
             failed_list = [(PStr ''Unknown'', ''Missing community name''),
                            (PStr ''privatesub'', ''Private/Restricted community'')],
             total_processed = 3\<rparr>,
        ({PStr ''python''},
         [Resolve (PStr ''python''), ReadAttr (PStr ''python''), ReadAttr (PStr ''python''),
          Subscribe (PStr ''python''), Resolve (PStr ''privatesub''),
          ReadAttr (PStr ''privatesub''), ReadAttr (PStr ''privatesub''),
          Subscribe (PStr ''privatesub'')]))"
    by (simp add: import_communities_def import_record_remote py_get_def no_err_def err_on_def
        no_joins_def reason)
  show ?thesis
    using three_lists_partition
      [where r = "remote_client no_err no_err (err_on (PStr ''privatesub'') ''403 Forbidden'')"
         and cs = "[PDict [(''name'', PStr ''python'')], PDict [(''title'', PStr ''No name'')],
                    PDict [(''name'', PStr ''privatesub'')]]"
         and dry_run = False and w = "({}, [])"]
      run
    by simp
qed

section \<open>Credentials\<close>

lemma config_in_force_load:
  "config_in_force fs config_file kvs \<Longrightarrow>
   (case config_file of
      None \<Rightarrow> Inr (PDict [])
    | Some path \<Rightarrow> if path \<noteq> [] then load_config fs path else Inr (PDict []))
     = Inr (PDict kvs)"
  by (auto simp: config_in_force_def load_config_def
      split: option.splits if_splits file_content.splits)

lemma or_config_get_PDict:
  "or_config_get arg (PDict kvs) key dflt = Inr (spec_pick arg (map_of kvs key) dflt)"
  by (simp add: or_config_get_def py_get_def spec_pick_def split: option.splits)

lemma and_then_Inr [simp]: "and_then (Inr x) f = f x"
  by (simp add: and_then_def)

lemma missing_params_spec:
  "missing_params a b c d =
     spec_missing [(''client-id'', a), (''client-secret'', b), (''username'', c), (''password'', d)]"
  by (simp add: missing_params_def spec_missing_def)

text \<open>The function once the configuration is known.\<close>

lemma get_reddit_credentials_in_force:
  assumes "config_in_force fs config_file kvs"
  shows "get_reddit_credentials fs config_file a b c d u =
     (if missing_params (spec_pick a (map_of kvs ''client_id'') PNone)
           (spec_pick b (map_of kvs ''client_secret'') PNone)
           (spec_pick c (map_of kvs ''username'') PNone)
           (spec_pick d (map_of kvs ''password'') PNone) \<noteq> []
      then Inl (ClickException (missing_message
             (missing_params (spec_pick a (map_of kvs ''client_id'') PNone)
               (spec_pick b (map_of kvs ''client_secret'') PNone)
               (spec_pick c (map_of kvs ''username'') PNone)
               (spec_pick d (map_of kvs ''password'') PNone))))
      else Inr \<lparr>cred_client_id = spec_pick a (map_of kvs ''client_id'') PNone,
                cred_client_secret = spec_pick b (map_of kvs ''client_secret'') PNone,
                cred_username = spec_pick c (map_of kvs ''username'') PNone,
                cred_password = spec_pick d (map_of kvs ''password'') PNone,
                cred_user_agent =
                  spec_pick u (map_of kvs ''user_agent'') (PStr ''reddit-cm:v0.1.0'')\<rparr>)"
  unfolding get_reddit_credentials_def config_in_force_load [OF assms]
  by (simp only: and_then_Inr or_config_get_PDict)



lemma missing_params_mem:
  "''client-id'' \<in> set (missing_params a b c d) \<longleftrightarrow> \<not> truthy a"
  "''client-secret'' \<in> set (missing_params a b c d) \<longleftrightarrow> \<not> truthy b"
  "''username'' \<in> set (missing_params a b c d) \<longleftrightarrow> \<not> truthy c"
  "''password'' \<in> set (missing_params a b c d) \<longleftrightarrow> \<not> truthy d"
  by (simp_all add: missing_params_def)

lemma missing_params_Nil:
  "missing_params a b c d = [] \<longleftrightarrow> truthy a \<and> truthy b \<and> truthy c \<and> truthy d"
  by (simp add: missing_params_def)

lemma missing_params_labels: "set (missing_params a b c d) \<subseteq> set required_labels"
  by (auto simp: missing_params_def required_labels_def)

lemma spec_pick_absent:
  "spec_pick PNone (map_of kvs key) PNone = config_value kvs key"
  by (simp add: spec_pick_def config_value_def)

lemma spec_pick_config_value:
  "spec_pick (config_value kvs key) (map_of kvs key) PNone = config_value kvs key"
  by (simp add: spec_pick_def config_value_def split: option.splits)

lemma field_falls_backI:
  assumes "result = (if params \<noteq> [] then Inl (ClickException (missing_message params))
                     else Inr creds)"
    and "set params \<subseteq> set required_labels"
    and "label \<in> set params \<longleftrightarrow> \<not> truthy from_config"
    and "field creds = from_config"
  shows "field_falls_back result field label from_config"
proof (cases "params = []")
  case True
  with assms show ?thesis by (simp add: field_falls_back_def)
next
  case False
  with assms(1) have "result = Inl (ClickException (missing_message params))"
    by simp
  with assms(2,3) show ?thesis
    unfolding field_falls_back_def by (cases "truthy from_config") auto
qed

lemma field_falls_back_client_id:
  assumes "config_in_force fs config_file kvs"
  shows "field_falls_back (get_reddit_credentials fs config_file PNone b c d u)
           cred_client_id ''client-id'' (config_value kvs ''client_id'')"
  by (rule field_falls_backI [OF get_reddit_credentials_in_force [OF assms]])
     (simp_all add: missing_params_labels missing_params_mem spec_pick_absent)

lemma field_falls_back_client_secret:
  assumes "config_in_force fs config_file kvs"
  shows "field_falls_back (get_reddit_credentials fs config_file a PNone c d u)
           cred_client_secret ''client-secret'' (config_value kvs ''client_secret'')"
  by (rule field_falls_backI [OF get_reddit_credentials_in_force [OF assms]])
     (simp_all add: missing_params_labels missing_params_mem spec_pick_absent)

lemma field_falls_back_username:
  assumes "config_in_force fs config_file kvs"
  shows "field_falls_back (get_reddit_credentials fs config_file a b PNone d u)
           cred_username ''username'' (config_value kvs ''username'')"
  by (rule field_falls_backI [OF get_reddit_credentials_in_force [OF assms]])
     (simp_all add: missing_params_labels missing_params_mem spec_pick_absent)

lemma field_falls_back_password:
  assumes "config_in_force fs config_file kvs"
  shows "field_falls_back (get_reddit_credentials fs config_file a b c PNone u)
           cred_password ''password'' (config_value kvs ''password'')"
  by (rule field_falls_backI [OF get_reddit_credentials_in_force [OF assms]])
     (simp_all add: missing_params_labels missing_params_mem spec_pick_absent)

lemma empty_is_absent:
  "get_reddit_credentials fs cf (PStr []) b c d u = get_reddit_credentials fs cf PNone b c d u"
  "get_reddit_credentials fs cf a (PStr []) c d u = get_reddit_credentials fs cf a PNone c d u"
  "get_reddit_credentials fs cf a b (PStr []) d u = get_reddit_credentials fs cf a b PNone d u"
  "get_reddit_credentials fs cf a b c (PStr []) u = get_reddit_credentials fs cf a b c PNone u"
  "get_reddit_credentials fs cf a b c d (PStr []) = get_reddit_credentials fs cf a b c d PNone"
  by (simp_all add: get_reddit_credentials_def or_config_get_def)

text \<open>
  With the field absent, the result is the resolution of the specification with the
  value of the configuration file in the place of the explicit field.
\<close>

lemma absent_is_config_value:
  assumes "config_in_force fs config_file kvs"
  shows "get_reddit_credentials fs config_file PNone b c d u
           = spec_credentials kvs (config_value kvs ''client_id'') b c d u"
    and "get_reddit_credentials fs config_file a PNone c d u
           = spec_credentials kvs a (config_value kvs ''client_secret'') c d u"
    and "get_reddit_credentials fs config_file a b PNone d u
           = spec_credentials kvs a b (config_value kvs ''username'') d u"
    and "get_reddit_credentials fs config_file a b c PNone u
           = spec_credentials kvs a b c (config_value kvs ''password'') u"
  unfolding get_reddit_credentials_in_force [OF assms] spec_credentials_def Let_def
    missing_params_spec missing_message_def spec_pick_config_value spec_pick_absent
  by simp_all

text \<open>
  Claim C10. An explicit empty string is resolved exactly as an absent field, for each
  of the five fields. With the configuration \<open>kvs\<close> in force, a required field given as
  the empty string takes the value of the configuration file: the result is the
  resolution the specification describes with that value in the place of the explicit
  field. When the value is truthy, it is the field of the credentials returned, or, when
  other required fields are missing, the result is the error that lists them and not
  this field; when the configuration has no value for the field, or a falsy one, the
  result is the error and its message names the field among the missing parameters.
\<close>

theorem empty_explicit_field:
  assumes "config_in_force fs config_file kvs"
  shows "get_reddit_credentials fs config_file (PStr []) b c d u
           = get_reddit_credentials fs config_file PNone b c d u
       \<and> get_reddit_credentials fs config_file a (PStr []) c d u
           = get_reddit_credentials fs config_file a PNone c d u
       \<and> get_reddit_credentials fs config_file a b (PStr []) d u
           = get_reddit_credentials fs config_file a b PNone d u
       \<and> get_reddit_credentials fs config_file a b c (PStr []) u
           = get_reddit_credentials fs config_file a b c PNone u
       \<and> get_reddit_credentials fs config_file a b c d (PStr [])
           = get_reddit_credentials fs config_file a b c d PNone
       \<and> get_reddit_credentials fs config_file (PStr []) b c d u
           = spec_credentials kvs (config_value kvs ''client_id'') b c d u
       \<and> get_reddit_credentials fs config_file a (PStr []) c d u
           = spec_credentials kvs a (config_value kvs ''client_secret'') c d u
       \<and> get_reddit_credentials fs config_file a b (PStr []) d u
           = spec_credentials kvs a b (config_value kvs ''username'') d u
       \<and> get_reddit_credentials fs config_file a b c (PStr []) u
           = spec_credentials kvs a b c (config_value kvs ''password'') u
       \<and> field_falls_back (get_reddit_credentials fs config_file (PStr []) b c d u)
           cred_client_id ''client-id'' (config_value kvs ''client_id'')
       \<and> field_falls_back (get_reddit_credentials fs config_file a (PStr []) c d u)
           cred_client_secret ''client-secret'' (config_value kvs ''client_secret'')
       \<and> field_falls_back (get_reddit_credentials fs config_file a b (PStr []) d u)
           cred_username ''username'' (config_value kvs ''username'')
       \<and> field_falls_back (get_reddit_credentials fs config_file a b c (PStr []) u)
           cred_password ''password'' (config_value kvs ''password'')"
  using field_falls_back_client_id [OF assms] field_falls_back_client_secret [OF assms]
    field_falls_back_username [OF assms] field_falls_back_password [OF assms]
    absent_is_config_value [OF assms]
  by (simp only: empty_is_absent simp_thms)

theorem empty_explicit_field_witness:
  "get_reddit_credentials
      (\<lambda>path. if path = ''cfg.yaml''
               then Parsed (PDict [(''client_id'', PStr ''config_id''),
                                   (''client_secret'', PStr []),
                                   (''username'', PStr ''config_user'')])
               else NoFile)
      (Some ''cfg.yaml'') (PStr []) (PStr ''s3cret'') (PStr []) (PStr ''pw'') (PStr [])
     = Inr \<lparr>cred_client_id = PStr ''config_id'', cred_client_secret = PStr ''s3cret'',
            cred_username = PStr ''config_user'', cred_password = PStr ''pw'',
            cred_user_agent = PStr ''reddit-cm:v0.1.0''\<rparr>
   \<and> get_reddit_credentials
      (\<lambda>path. if path = ''cfg.yaml''
               then Parsed (PDict [(''client_id'', PStr ''config_id''),
                                   (''client_secret'', PStr []),
                                   (''username'', PStr ''config_user'')])
               else NoFile)
      (Some ''cfg.yaml'') (PStr []) (PStr ''s3cret'') (PStr []) (PStr []) (PStr [])
     = Inl (ClickException
         ''Missing required parameters: password. Provide them via command line or config file.'')
   \<and> field_falls_back
        (get_reddit_credentials
          (\<lambda>path. if path = ''cfg.yaml''
               then Parsed (PDict [(''client_id'', PStr ''config_id''),
                                   (''client_secret'', PStr []),
                                   (''username'', PStr ''config_user'')])
               else NoFile)
          (Some ''cfg.yaml'') (PStr []) (PStr []) (PStr []) (PStr ''pw'') (PStr []))
        cred_client_secret ''client-secret'' (PStr [])
   \<and> get_reddit_credentials
      (\<lambda>path. if path = ''cfg.yaml''
               then Parsed (PDict [(''client_id'', PStr ''config_id''),
                                   (''client_secret'', PStr []),
                                   (''username'', PStr ''config_user'')])
               else NoFile)
      (Some ''cfg.yaml'') (PStr []) (PStr []) (PStr []) (PStr []) (PStr [])
     = Inl (ClickException
         ''Missing required parameters: client-secret, password. Provide them via command line or config file.'')"
proof -
  let ?fs = "\<lambda>path. if path = ''cfg.yaml''
               then Parsed (PDict [(''client_id'', PStr ''config_id''),
                                   (''client_secret'', PStr []),
                                   (''username'', PStr ''config_user'')])
               else NoFile"
  let ?kvs = "[(''client_id'', PStr ''config_id''), (''client_secret'', PStr []),
               (''username'', PStr ''config_user'')]"
  have in_force: "config_in_force ?fs (Some ''cfg.yaml'') ?kvs"
    by (simp add: config_in_force_def)
  have value_secret: "config_value ?kvs ''client_secret'' = PStr []"
    by (simp add: config_value_def)
  have value_id: "config_value ?kvs ''client_id'' = PStr ''config_id''"
    by (simp add: config_value_def)
  have first: "get_reddit_credentials ?fs (Some ''cfg.yaml'')
        (PStr []) (PStr ''s3cret'') (PStr []) (PStr ''pw'') (PStr [])
     = Inr \<lparr>cred_client_id = PStr ''config_id'', cred_client_secret = PStr ''s3cret'',
            cred_username = PStr ''config_user'', cred_password = PStr ''pw'',
            cred_user_agent = PStr ''reddit-cm:v0.1.0''\<rparr>"
  proof -
    from empty_explicit_field
      [OF in_force, where a = "PStr []" and b = "PStr ''s3cret''" and c = "PStr []"
         and d = "PStr ''pw''" and u = "PStr []"]
    have "get_reddit_credentials ?fs (Some ''cfg.yaml'')
          (PStr []) (PStr ''s3cret'') (PStr []) (PStr ''pw'') (PStr [])
        = spec_credentials ?kvs (config_value ?kvs ''client_id'')
            (PStr ''s3cret'') (PStr []) (PStr ''pw'') (PStr [])"
      by blast
    then show ?thesis
      by (simp add: value_id spec_credentials_def spec_pick_def spec_missing_def)
  qed
  have others: "get_reddit_credentials ?fs (Some ''cfg.yaml'')
        (PStr []) (PStr ''s3cret'') (PStr []) (PStr []) (PStr [])
     = Inl (ClickException
         ''Missing required parameters: password. Provide them via command line or config file.'')"
  proof -
    from empty_explicit_field
      [OF in_force, where a = "PStr []" and b = "PStr ''s3cret''" and c = "PStr []"
         and d = "PStr []" and u = "PStr []"]
    have "get_reddit_credentials ?fs (Some ''cfg.yaml'')
          (PStr []) (PStr ''s3cret'') (PStr []) (PStr []) (PStr [])
        = spec_credentials ?kvs (config_value ?kvs ''client_id'')
            (PStr ''s3cret'') (PStr []) (PStr []) (PStr [])"
      by blast
    then show ?thesis
      by (simp add: value_id spec_credentials_def spec_pick_def spec_missing_def)
  qed
  have last: "get_reddit_credentials ?fs (Some ''cfg.yaml'')
        (PStr []) (PStr []) (PStr []) (PStr []) (PStr [])
     = Inl (ClickException
         ''Missing required parameters: client-secret, password. Provide them via command line or config file.'')"
    by (simp add: get_reddit_credentials_def load_config_def or_config_get_def py_get_def
        missing_params_def missing_message_def)
  have fallback: "field_falls_back
        (get_reddit_credentials ?fs (Some ''cfg.yaml'')
           (PStr []) (PStr []) (PStr []) (PStr ''pw'') (PStr []))
        cred_client_secret ''client-secret'' (config_value ?kvs ''client_secret'')"
    using empty_explicit_field
      [OF in_force, where a = "PStr []" and b = "PStr []" and c = "PStr []"
         and d = "PStr ''pw''" and u = "PStr []"]
    by blast
  show ?thesis
    using first others fallback last unfolding value_secret by (intro conjI)
qed

section \<open>Runs against the remote platform\<close>

lemma import_record_remote_mono:
  "import_record (remote_client re qe se) d c w = (res, w') \<Longrightarrow> fst w \<subseteq> fst w'"
  by (cases w)
     (auto simp: import_record_remote split: sum.splits option.splits exn.splits if_splits)

lemma import_loop_remote_mono:
  "import_loop (remote_client re qe se) d cs js w = (res, w') \<Longrightarrow> fst w \<subseteq> fst w'"
proof (induction cs arbitrary: js w)
  case Nil
  then show ?case by simp
next
  case (Cons c cs)
  obtain res1 w1 where step: "import_record (remote_client re qe se) d c w = (res1, w1)"
    by (cases "import_record (remote_client re qe se) d c w")
  then have mono: "fst w \<subseteq> fst w1"
    by (rule import_record_remote_mono)
  show ?case
  proof (cases res1)
    case (Inl e)
    with Cons.prems step mono show ?thesis by simp
  next
    case (Inr out)
    with Cons.prems step
    have "import_loop (remote_client re qe se) d cs (append_outcome out js) w1 = (res, w')"
      by simp
    from Cons.IH [OF this] mono show ?thesis by blast
  qed
qed

lemma import_communities_world:
  "snd (import_communities r cs d w) = snd (import_loop r d cs no_joins w)"
  by (simp add: import_communities_def split: prod.splits sum.splits)

text \<open>
  A record that is joined for real is subscribed afterwards, and it resolved; the read of
  the attribute did not raise, unless the handle has no such attribute.
\<close>

lemma import_record_remote_Joined:
  assumes "import_record (remote_client re qe se) False c w = (Inr (Joined n), w')"
  shows "n \<in> fst w' \<and> community_name c = Some n \<and> re n = None
       \<and> (qe n = None \<or> (\<exists>m. qe n = Some (AttributeError m)))"
  using assms
  by (cases w)
     (auto simp: import_record_remote community_name_def classify_spec_reason
       split: sum.splits option.splits exn.splits if_splits)

text \<open>A record whose community is subscribed, and resolves, is reported as already joined.\<close>

lemma import_record_remote_AlreadyJoined:
  assumes "community_name c = Some n" and "re n = None" and "qe n = None" and "n \<in> fst w"
  shows "\<exists>w'. import_record (remote_client re qe se) d c w = (Inr (AlreadyJoined n), w')"
  using assms
  by (cases w)
     (auto simp: import_record_remote community_name_def split: sum.splits if_splits)

lemma import_record_is_record:
  "import_record r d c w = (res, w') \<Longrightarrow> (\<exists>out. res = Inr out) = is_record c"
  by (cases c; cases "try_join r d (case c of PDict kvs \<Rightarrow>
        (case map_of kvs ''name'' of None \<Rightarrow> PNone | Some v \<Rightarrow> v)) w")
     (auto simp: import_record_def py_get_def split: sum.splits if_splits)

lemma length_outcomes:
  "length (outcomes r d cs w) = length (takeWhile is_record cs)"
proof (induction cs arbitrary: w)
  case Nil
  show ?case by simp
next
  case (Cons c cs)
  obtain res1 w1 where step: "import_record r d c w = (res1, w1)"
    by (cases "import_record r d c w")
  show ?case
  proof (cases res1)
    case (Inl e)
    with step import_record_is_record [OF step] show ?thesis by simp
  next
    case (Inr out)
    with step import_record_is_record [OF step] Cons.IH [of w1] show ?thesis by simp
  qed
qed

lemma outcomes_remote_Joined:
  assumes "i < length (outcomes (remote_client re qe se) False cs w)"
    and "outcomes (remote_client re qe se) False cs w ! i = Joined n"
  shows "n \<in> fst (snd (import_loop (remote_client re qe se) False cs js w))
       \<and> community_name (cs ! i) = Some n \<and> re n = None
       \<and> (qe n = None \<or> (\<exists>m. qe n = Some (AttributeError m)))"
  using assms
proof (induction cs arbitrary: i js w)
  case Nil
  then show ?case by simp
next
  case (Cons c cs)
  obtain res1 w1 where step: "import_record (remote_client re qe se) False c w = (res1, w1)"
    by (cases "import_record (remote_client re qe se) False c w")
  show ?case
  proof (cases res1)
    case (Inl e)
    with Cons.prems step show ?thesis by simp
  next
    case (Inr out)
    obtain res2 w2 where rest:
      "import_loop (remote_client re qe se) False cs (append_outcome out js) w1 = (res2, w2)"
      by (cases "import_loop (remote_client re qe se) False cs (append_outcome out js) w1")
    have loop: "import_loop (remote_client re qe se) False (c # cs) js w = (res2, w2)"
      using step Inr rest by simp
    show ?thesis
    proof (cases i)
      case 0
      with Cons.prems step Inr have "out = Joined n" by simp
      with step Inr import_record_remote_Joined [of re qe se c w n w1]
      have "n \<in> fst w1" and "community_name c = Some n" and "re n = None"
        and "qe n = None \<or> (\<exists>m. qe n = Some (AttributeError m))"
        by simp_all
      moreover have "fst w1 \<subseteq> fst w2"
        using rest by (rule import_loop_remote_mono)
      ultimately show ?thesis using loop 0 by auto
    next
      case (Suc k)
      with Cons.prems step Inr
      have "k < length (outcomes (remote_client re qe se) False cs w1)"
        and "outcomes (remote_client re qe se) False cs w1 ! k = Joined n"
        by simp_all
      from Cons.IH [OF this, of "append_outcome out js"] show ?thesis
        using loop rest Suc by simp
    qed
  qed
qed

lemma outcomes_remote_AlreadyJoined:
  assumes "i < length (takeWhile is_record cs)"
    and "community_name (cs ! i) = Some n" and "re n = None" and "qe n = None"
    and "n \<in> fst w"
  shows "outcomes (remote_client re qe se) d cs w ! i = AlreadyJoined n"
  using assms
proof (induction cs arbitrary: i w)
  case Nil
  then show ?case by simp
next
  case (Cons c cs)
  from Cons.prems(1) have rec: "is_record c"
    by (cases "is_record c") simp_all
  obtain res1 w1 where step: "import_record (remote_client re qe se) d c w = (res1, w1)"
    by (cases "import_record (remote_client re qe se) d c w")
  with rec import_record_is_record [OF step] obtain out where out: "res1 = Inr out"
    by blast
  have mono: "fst w \<subseteq> fst w1"
    using step by (rule import_record_remote_mono)
  show ?case
  proof (cases i)
    case 0
    with Cons.prems have name: "community_name c = Some n" by simp
    have "\<exists>w'. import_record (remote_client re qe se) d c w = (Inr (AlreadyJoined n), w')"
      using name Cons.prems(3,4,5) by (rule import_record_remote_AlreadyJoined)
    then show ?thesis using step out 0 by auto
  next
    case (Suc k)
    with Cons.prems rec have "k < length (takeWhile is_record cs)"
      and "community_name (cs ! k) = Some n"
      by simp_all
    moreover have "n \<in> fst w1"
      using mono Cons.prems(5) by blast
    ultimately have "outcomes (remote_client re qe se) d cs w1 ! k = AlreadyJoined n"
      using Cons.IH Cons.prems(3,4) by blast
    then show ?thesis using step out Suc by simp
  qed
qed

text \<open>
  The pass over the entry at a position the loop gets to: the loop over the entries
  before it ends with three lists, and the loop over these and the entry itself ends with
  the same lists and the outcome of the pass appended.
\<close>

lemma import_loop_prefix:
  "i < length (outcomes r d cs w) \<Longrightarrow>
   \<exists>js' wa wb. import_loop r d (take i cs) js w = (Inr js', wa)
     \<and> import_loop r d (take (Suc i) cs) js w
         = (Inr (append_outcome (outcomes r d cs w ! i) js'), wb)"
proof (induction cs arbitrary: i js w)
  case Nil
  then show ?case by simp
next
  case (Cons c cs)
  obtain res1 w1 where step: "import_record r d c w = (res1, w1)"
    by (cases "import_record r d c w")
  show ?case
  proof (cases res1)
    case (Inl e)
    with Cons.prems step show ?thesis by simp
  next
    case (Inr out)
    show ?thesis
    proof (cases i)
      case 0
      with step Inr show ?thesis by simp
    next
      case (Suc k)
      with Cons.prems step Inr have "k < length (outcomes r d cs w1)"
        by simp
      from Cons.IH [OF this, of "append_outcome out js"] show ?thesis
        using step Inr Suc by simp
    qed
  qed
qed

text \<open>The names in \<^verbatim>\<open>already_joined\<close> are those of the passes that ended so.\<close>

lemma already_joined_foldl:
  "set (already_joined (foldl (\<lambda>acc out. append_outcome out acc) js outs))
     = set (already_joined js) \<union> {n. AlreadyJoined n \<in> set outs}"
proof (induction outs arbitrary: js)
  case Nil
  show ?case by simp
next
  case (Cons out outs)
  show ?case
    unfolding foldl_Cons Cons.IH by (cases out) auto
qed

lemma import_loop_already_joined:
  assumes "import_loop r d cs no_joins w = (Inr js', w')"
    and "i < length (outcomes r d cs w)" and "outcomes r d cs w ! i = AlreadyJoined n"
  shows "n \<in> set (already_joined js')"
proof -
  have "js' = foldl (\<lambda>acc out. append_outcome out acc) no_joins (outcomes r d cs w)"
    using import_loop_outcomes [OF assms(1)] by simp
  moreover have "AlreadyJoined n \<in> set (outcomes r d cs w)"
    using assms(2,3) nth_mem by fastforce
  ultimately show ?thesis
    by (simp add: already_joined_foldl)
qed

text \<open>
  Claim C7, as the code has it. Against the remote platform: when a run that does
  subscribe (\<open>dry_run\<close> false) ends the pass over the record at position \<open>i\<close> with a
  join of \<open>n\<close>, appending \<open>n\<close> to \<^verbatim>\<open>successful_joins\<close>, and the handle of \<open>n\<close> has the
  attribute \<^verbatim>\<open>user_is_subscriber\<close> (reading it raises no \<^verbatim>\<open>AttributeError\<close>), then a
  second run of the same list against the state the first run left, in either mode, gets
  to the record at position \<open>i\<close> and its pass appends \<open>n\<close> to \<^verbatim>\<open>already_joined\<close>;
  when the second run ends with a summary, \<open>n\<close> is in its list of communities
  already joined.
\<close>

theorem second_run_already_joined:
  assumes "i < length (outcomes (remote_client re qe se) False cs (subs, log))"
    and "outcomes (remote_client re qe se) False cs (subs, log) ! i = Joined n"
    and "\<forall>m. qe n \<noteq> Some (AttributeError m)"
    and "snd (import_communities (remote_client re qe se) cs False (subs, log)) = (subs', log')"
  shows "(\<exists>js wa wb.
            import_loop (remote_client re qe se) False (take i cs) no_joins (subs, log)
              = (Inr js, wa)
          \<and> import_loop (remote_client re qe se) False (take (Suc i) cs) no_joins (subs, log)
              = (Inr (js\<lparr>successful_joins := successful_joins js @ [n]\<rparr>), wb))
       \<and> i < length (outcomes (remote_client re qe se) dry_run cs (subs', later_log))
       \<and> outcomes (remote_client re qe se) dry_run cs (subs', later_log) ! i = AlreadyJoined n
       \<and> (\<exists>js wa wb.
            import_loop (remote_client re qe se) dry_run (take i cs) no_joins (subs', later_log)
              = (Inr js, wa)
          \<and> import_loop (remote_client re qe se) dry_run (take (Suc i) cs) no_joins
                (subs', later_log)
              = (Inr (js\<lparr>already_joined := already_joined js @ [n]\<rparr>), wb))
       \<and> (\<forall>s w'. import_communities (remote_client re qe se) cs dry_run (subs', later_log)
                    = (Inr s, w') \<longrightarrow>
                  n \<in> set (already_list s))"
proof -
  let ?R = "remote_client re qe se"
  have "n \<in> fst (snd (import_loop ?R False cs no_joins (subs, log)))
       \<and> community_name (cs ! i) = Some n \<and> re n = None
       \<and> (qe n = None \<or> (\<exists>m. qe n = Some (AttributeError m)))"
    using assms(1,2) by (rule outcomes_remote_Joined)
  with assms(3) have first: "n \<in> fst (snd (import_loop ?R False cs no_joins (subs, log)))"
    and name: "community_name (cs ! i) = Some n" and re: "re n = None" and qe: "qe n = None"
    by auto
  have "n \<in> subs'"
    using first assms(4) by (simp add: import_communities_world)
  moreover have len: "i < length (takeWhile is_record cs)"
    using assms(1) by (simp add: length_outcomes)
  ultimately have again: "outcomes ?R dry_run cs (subs', later_log) ! i = AlreadyJoined n"
    using name re qe
      outcomes_remote_AlreadyJoined
        [where i = i and cs = cs and n = n and re = re and qe = qe and se = se
           and w = "(subs', later_log)" and d = dry_run]
    by simp
  have len_again: "i < length (outcomes ?R dry_run cs (subs', later_log))"
    using len by (simp add: length_outcomes)
  have one: "\<exists>js wa wb.
            import_loop ?R False (take i cs) no_joins (subs, log) = (Inr js, wa)
          \<and> import_loop ?R False (take (Suc i) cs) no_joins (subs, log)
              = (Inr (js\<lparr>successful_joins := successful_joins js @ [n]\<rparr>), wb)"
    using import_loop_prefix [OF assms(1), of no_joins] assms(2) by simp
  have two: "\<exists>js wa wb.
            import_loop ?R dry_run (take i cs) no_joins (subs', later_log) = (Inr js, wa)
          \<and> import_loop ?R dry_run (take (Suc i) cs) no_joins (subs', later_log)
              = (Inr (js\<lparr>already_joined := already_joined js @ [n]\<rparr>), wb)"
    using import_loop_prefix [OF len_again, of no_joins] again by simp
  have three: "\<forall>s w'. import_communities ?R cs dry_run (subs', later_log) = (Inr s, w') \<longrightarrow>
                  n \<in> set (already_list s)"
  proof (intro allI impI)
    fix s w'
    assume "import_communities ?R cs dry_run (subs', later_log) = (Inr s, w')"
    then obtain js' where loop: "import_loop ?R dry_run cs no_joins (subs', later_log) = (Inr js', w')"
      and s: "already_list s = already_joined js'"
      by (auto simp: import_communities_def split: prod.splits sum.splits)
    from import_loop_already_joined [OF loop len_again again] s
    show "n \<in> set (already_list s)" by simp
  qed
  show ?thesis
    using one len_again again two three by (intro conjI)
qed

theorem second_run_already_joined_witness:
  "0 < length (outcomes (remote_client no_err no_err (err_on (PStr ''privatesub'') ''403 Forbidden''))
          False
          [PDict [(''name'', PStr ''python'')], PDict [(''name'', PStr [])],
           PDict [(''name'', PStr ''privatesub'')]]
          ({}, []))
   \<and> outcomes (remote_client no_err no_err (err_on (PStr ''privatesub'') ''403 Forbidden''))
          False
          [PDict [(''name'', PStr ''python'')], PDict [(''name'', PStr [])],
           PDict [(''name'', PStr ''privatesub'')]]
          ({}, []) ! 0
       = Joined (PStr ''python'')
   \<and> fst (snd (import_communities
          (remote_client no_err no_err (err_on (PStr ''privatesub'') ''403 Forbidden''))
          [PDict [(''name'', PStr ''python'')], PDict [(''name'', PStr [])],
           PDict [(''name'', PStr ''privatesub'')]]
          False ({}, [])))
       = {PStr ''python''}
   \<and> outcomes (remote_client no_err no_err (err_on (PStr ''privatesub'') ''403 Forbidden''))
          False
          [PDict [(''name'', PStr ''python'')], PDict [(''name'', PStr [])],
           PDict [(''name'', PStr ''privatesub'')]]
          ({PStr ''python''}, []) ! 0
       = AlreadyJoined (PStr ''python'')
   \<and> fst (import_communities
          (remote_client no_err no_err (err_on (PStr ''privatesub'') ''403 Forbidden''))
          [PDict [(''name'', PStr ''python'')], PDict [(''name'', PStr [])],
           PDict [(''name'', PStr ''privatesub'')]]
          False ({PStr ''python''}, []))
       = Inr \<lparr>join_label = ''Successfully joined'', join_count = 0,
              already_list = [PStr ''python''],
              failed_list = [(PStr ''Unknown'', ''Missing community name''),
                             (PStr ''privatesub'', ''Private/Restricted community'')],
              total_processed = 3\<rparr>"
proof -
  let ?R = "remote_client no_err no_err (err_on (PStr ''privatesub'') ''403 Forbidden'')"
  let ?cs = "[PDict [(''name'', PStr ''python'')], PDict [(''name'', PStr [])],
              PDict [(''name'', PStr ''privatesub'')]]"
  let ?log = "[Resolve (PStr ''python''), ReadAttr (PStr ''python''), ReadAttr (PStr ''python''),
               Subscribe (PStr ''python''), Resolve (PStr ''privatesub''),
               ReadAttr (PStr ''privatesub''), ReadAttr (PStr ''privatesub''),
               Subscribe (PStr ''privatesub'')]"
  have reason: "classify (PStr ''privatesub'') (OtherException ''403 Forbidden'')
      = Failed (PStr ''privatesub'') ''Private/Restricted community''"
    by code_simp
  have len: "0 < length (outcomes ?R False ?cs ({}, []))"
    by (simp add: import_record_remote py_get_def no_err_def err_on_def)
  have joined: "outcomes ?R False ?cs ({}, []) ! 0 = Joined (PStr ''python'')"
    by (simp add: import_record_remote py_get_def no_err_def err_on_def)
  have attr: "\<forall>m. no_err (PStr ''python'') \<noteq> Some (AttributeError m)"
    by (simp add: no_err_def)
  have world: "snd (import_communities ?R ?cs False ({}, [])) = ({PStr ''python''}, ?log)"
    by (simp add: import_communities_world import_record_remote py_get_def no_err_def
        err_on_def)
  have second: "fst (import_communities ?R ?cs False ({PStr ''python''}, []))
       = Inr \<lparr>join_label = ''Successfully joined'', join_count = 0,
              already_list = [PStr ''python''],
              failed_list = [(PStr ''Unknown'', ''Missing community name''),
                             (PStr ''privatesub'', ''Private/Restricted community'')],
              total_processed = 3\<rparr>"
    by (simp add: import_communities_def import_record_remote py_get_def no_err_def err_on_def
        no_joins_def reason)
  note claim = second_run_already_joined
      [OF len joined attr world, where dry_run = False and later_log = "[]"]
  from claim have again: "outcomes ?R False ?cs ({PStr ''python''}, []) ! 0
      = AlreadyJoined (PStr ''python'')"
    by blast
  show ?thesis
    using len joined world again second by simp
qed

text \<open>
  Where the claim fails as it is stated. The handle of the community has no attribute
  \<^verbatim>\<open>user_is_subscriber\<close>: the first run subscribes to the community and counts it as
  joined; the second run, from the state the first one left, in which the account is
  subscribed, finds no attribute again, subscribes again and counts the community as
  joined, not as already joined.
\<close>

theorem second_run_joins_again:
  "import_communities
      (remote_client no_err (no_attribute_on (PStr ''python'') ''no attribute user_is_subscriber'')
         no_err)
      [PDict [(''name'', PStr ''python'')]] False ({}, [])
     = (Inr \<lparr>join_label = ''Successfully joined'', join_count = 1, already_list = [],
             failed_list = [], total_processed = 1\<rparr>,
        ({PStr ''python''},
         [Resolve (PStr ''python''), ReadAttr (PStr ''python''), Subscribe (PStr ''python'')]))
   \<and> import_communities
      (remote_client no_err (no_attribute_on (PStr ''python'') ''no attribute user_is_subscriber'')
         no_err)
      [PDict [(''name'', PStr ''python'')]] False ({PStr ''python''}, [])
     = (Inr \<lparr>join_label = ''Successfully joined'', join_count = 1, already_list = [],
             failed_list = [], total_processed = 1\<rparr>,
        ({PStr ''python''},
         [Resolve (PStr ''python''), ReadAttr (PStr ''python''), Subscribe (PStr ''python'')]))"
  by (simp add: import_communities_def import_record_remote py_get_def no_err_def
      no_attribute_on_def no_joins_def)

section \<open>Dry run against real run\<close>






end
